theory Spec2Isabelle
  imports Main "HOL-Library.Word"
begin

unbundle bit_operations_syntax

section \<open>Array storage: sizing of the page tree\<close>

text \<open>
  Source: \<^verbatim>\<open>foedus/storage/array/array_storage_pimpl.cpp\<close>, functions
  \<^verbatim>\<open>ArrayStoragePimpl::calculate_required_pages\<close> and \<^verbatim>\<open>calculate_levels\<close>.
  The header \<^verbatim>\<open>array_id.hpp\<close> with the constants \<^verbatim>\<open>kDataSize\<close>,
  \<^verbatim>\<open>kRecordOverhead\<close> and \<^verbatim>\<open>kInteriorFanout\<close> is not part of the sources at hand, so the
  three constants are parameters of the model.
\<close>

type_synonym uint8 = "8 word"
type_synonym uint16 = "16 word"
type_synonym uint32 = "32 word"
type_synonym uint64 = "64 word"

record ArrayConstants =
  kDataSize :: nat
  kRecordOverhead :: nat
  kInteriorFanout :: nat

record ArrayMetadata =
  md_id :: uint32
  md_name :: string
  md_payload_size :: uint16
  md_array_size :: uint64
  md_root_page_id :: uint64

text \<open>
  Modelled from the spec: \<^verbatim>\<open>assorted::align8\<close> (header \<^verbatim>\<open>assorted_func.hpp\<close> is missing).
  The spec speaks of the "aligned" payload; the value is rounded up to the next multiple of
  eight in the argument's own type, here \<^verbatim>\<open>uint16_t\<close>.
\<close>
definition align8 :: "uint16 \<Rightarrow> uint16" where
  "align8 v = (v + 7) AND NOT 7"

text \<open>
  Modelled from the spec: \<^verbatim>\<open>assorted::int_div_ceil\<close> (header \<^verbatim>\<open>assorted_func.hpp\<close> is
  missing): integer division rounding up.  A zero divisor traps in C++; the model
  returns \<open>None\<close> there.
\<close>
definition int_div_ceil :: "uint64 \<Rightarrow> uint64 \<Rightarrow> uint64 option" where
  "int_div_ceil left right =
     (if right = 0 then None
      else Some (if left mod right = 0 then left div right else left div right + 1))"

text \<open>
  The expression \<^verbatim>\<open>kDataSize / (payload + kRecordOverhead)\<close>, shared by both functions.
  The \<^verbatim>\<open>uint16_t\<close> payload is promoted before the addition, so the sum does not wrap; the
  quotient is stored in a \<^verbatim>\<open>uint64_t\<close>.
\<close>
definition records_per_page :: "ArrayConstants \<Rightarrow> uint16 \<Rightarrow> uint64 option" where
  "records_per_page c payload =
     (if unat payload + kRecordOverhead c = 0 then None
      else Some (of_nat (kDataSize c div (unat payload + kRecordOverhead c))))"

text \<open>
  The \<^verbatim>\<open>while (pages.back() != 1)\<close> loop of \<^verbatim>\<open>calculate_required_pages\<close>.  The vector is never
  empty here.  \<open>None\<close> stands for a run that traps or never leaves the loop.  The running
  sum \<^verbatim>\<open>total_pages\<close> is only logged and is left out.
\<close>
partial_function (option) pages_loop :: "uint64 \<Rightarrow> uint64 list \<Rightarrow> uint64 list option" where
  "pages_loop fanout pages =
     (if last pages = 1 then Some pages
      else case int_div_ceil (last pages) fanout of
             None \<Rightarrow> None
           | Some next_level_pages \<Rightarrow> pages_loop fanout (pages @ [next_level_pages]))"

declare pages_loop.simps [code]

definition calculate_required_pages :: "ArrayConstants \<Rightarrow> uint64 \<Rightarrow> uint16 \<Rightarrow> uint64 list option" where
  "calculate_required_pages c asize payload =
     (case records_per_page c (align8 payload) of
        None \<Rightarrow> None
      | Some rpp \<Rightarrow>
          (case int_div_ceil asize rpp of
             None \<Rightarrow> None
           | Some leaf_pages \<Rightarrow> pages_loop (of_nat (kInteriorFanout c)) [leaf_pages]))"

text \<open>The \<^verbatim>\<open>for\<close> loop of \<^verbatim>\<open>calculate_levels\<close>; the counter is a \<^verbatim>\<open>uint8_t\<close>.\<close>
partial_function (option) levels_loop :: "uint64 \<Rightarrow> uint64 \<Rightarrow> uint8 \<Rightarrow> uint8 option" where
  "levels_loop fanout pages levels =
     (if pages = 1 then Some levels
      else case int_div_ceil pages fanout of
             None \<Rightarrow> None
           | Some pages' \<Rightarrow> levels_loop fanout pages' (levels + 1))"

declare levels_loop.simps [code]

definition calculate_levels :: "ArrayConstants \<Rightarrow> ArrayMetadata \<Rightarrow> uint8 option" where
  "calculate_levels c metadata =
     (case records_per_page c (align8 (md_payload_size metadata)) of
        None \<Rightarrow> None
      | Some rpp \<Rightarrow>
          (case int_div_ceil (md_array_size metadata) rpp of
             None \<Rightarrow> None
           | Some pages \<Rightarrow> levels_loop (of_nat (kInteriorFanout c)) pages 1))"

text \<open>
  A concrete choice of the three constants, used to run the definitions: a 4 KiB page with a
  48-byte header, 16 bytes of overhead per record, and 253 pointers in an interior page.
\<close>
definition foedus_array_constants :: ArrayConstants where
  "foedus_array_constants = \<lparr>kDataSize = 4048, kRecordOverhead = 16, kInteriorFanout = 253\<rparr>"


section \<open>Masstree storage: data model\<close>

text \<open>
  Source: \<^verbatim>\<open>foedus/storage/masstree/masstree_storage_pimpl.cpp\<close>.  The headers that declare
  the error codes, \<^verbatim>\<open>Epoch\<close>, \<^verbatim>\<open>xct::XctId\<close>, \<^verbatim>\<open>PageVersion\<close>, the page pointers and the
  page classes are not part of the sources at hand.  Each of them is modelled below from the
  way the source uses it and from the data model of the specification.
\<close>

datatype ErrorCode =
    kErrorCodeOk
  | kErrorCodeStrMasstreeRetry
  | kErrorCodeMemoryNoFreePages
  | kErrorCodeStrKeyNotFound
  | kErrorCodeStrTooLongPayload
  | kErrorCodeStrTooSmallPayloadBuffer
  | kErrorCodeStrTooShortPayload
  | kErrorCodeStrAlreadyExists
  | kErrorCodeNotimplemented
  | kErrorCodeOther nat

type_synonym KeySlice = uint64

subsection \<open>Epoch and record owner-id\<close>

text \<open>
  Modelled from the spec: \<^verbatim>\<open>Epoch\<close> (header \<^verbatim>\<open>epoch.hpp\<close> is missing), "a coarse time
  quantum".  \<^verbatim>\<open>one_more\<close> yields the next epoch.
\<close>
datatype Epoch = Epoch (epoch_value: uint32)

definition one_more :: "Epoch \<Rightarrow> Epoch" where
  "one_more e = Epoch (epoch_value e + 1)"

text \<open>
  Modelled from the spec: the constant \<^verbatim>\<open>Epoch::kEpochInitialCurrent\<close>; its value is not
  stated and no result depends on it.
\<close>
definition kEpochInitialCurrent :: Epoch where
  "kEpochInitialCurrent = Epoch 1"

text \<open>
  Modelled from the spec: \<^verbatim>\<open>xct::XctId\<close> (header \<^verbatim>\<open>xct_id.hpp\<close> is missing), a "64-bit word
  combining epoch, in-epoch ordinal, lock bit, deleted bit, moved bit".  The source also
  passes the id of the thread to \<^verbatim>\<open>set_clean\<close> and reads the ordinal as a \<^verbatim>\<open>uint16_t\<close>.
\<close>
record XctId =
  xid_epoch :: Epoch
  xid_ordinal :: uint16
  xid_thread_id :: uint16
  xid_keylocked :: bool
  xid_deleted :: bool
  xid_moved :: bool

definition get_epoch :: "XctId \<Rightarrow> Epoch" where
  "get_epoch x = xid_epoch x"

definition set_epoch :: "XctId \<Rightarrow> Epoch \<Rightarrow> XctId" where
  "set_epoch x e = x\<lparr>xid_epoch := e\<rparr>"

definition get_ordinal :: "XctId \<Rightarrow> uint16" where
  "get_ordinal x = xid_ordinal x"

definition set_ordinal :: "XctId \<Rightarrow> uint16 \<Rightarrow> XctId" where
  "set_ordinal x n = x\<lparr>xid_ordinal := n\<rparr>"

definition is_deleted :: "XctId \<Rightarrow> bool" where
  "is_deleted x = xid_deleted x"

definition set_deleted :: "XctId \<Rightarrow> XctId" where
  "set_deleted x = x\<lparr>xid_deleted := True\<rparr>"

definition set_notdeleted :: "XctId \<Rightarrow> XctId" where
  "set_notdeleted x = x\<lparr>xid_deleted := False\<rparr>"

definition is_keylocked :: "XctId \<Rightarrow> bool" where
  "is_keylocked x = xid_keylocked x"

definition release_keylock :: "XctId \<Rightarrow> XctId" where
  "release_keylock x = x\<lparr>xid_keylocked := False\<rparr>"

text \<open>\<^verbatim>\<open>set_clean\<close> sets epoch, ordinal and thread and clears every status bit.\<close>
definition set_clean :: "Epoch \<Rightarrow> uint16 \<Rightarrow> uint16 \<Rightarrow> XctId" where
  "set_clean e n t =
     \<lparr>xid_epoch = e, xid_ordinal = n, xid_thread_id = t,
      xid_keylocked = False, xid_deleted = False, xid_moved = False\<rparr>"

subsection \<open>Page version word\<close>

text \<open>
  Modelled from the spec: \<^verbatim>\<open>PageVersion\<close> (its header is missing).  "A page's version word
  packs: lock bit (bit 0), inserting bit, splitting bit, has-foster-child bit, is-root bit,
  is-border bit, is-high-fence-supremum bit, key count (7 bits), insert counter (8 bits),
  split counter (32 bits), plus reserved flags."  The fields are kept apart in a record;
  \<open>data\<close> packs them into the 64-bit word \<^verbatim>\<open>data_\<close> in the order of that sentence.
\<close>
record PageVersion =
  pv_locked :: bool
  pv_inserting :: bool
  pv_splitting :: bool
  pv_has_foster_child :: bool
  pv_is_root :: bool
  pv_is_border :: bool
  pv_is_high_fence_supremum :: bool
  pv_key_count :: "7 word"
  pv_insert_counter :: "8 word"
  pv_split_counter :: "32 word"

definition kPageVersionLockedBit :: uint64 where
  "kPageVersionLockedBit = 1"

definition data :: "PageVersion \<Rightarrow> uint64" where
  "data v =
     of_bool (pv_locked v)
     OR push_bit 1 (of_bool (pv_inserting v))
     OR push_bit 2 (of_bool (pv_splitting v))
     OR push_bit 3 (of_bool (pv_has_foster_child v))
     OR push_bit 4 (of_bool (pv_is_root v))
     OR push_bit 5 (of_bool (pv_is_border v))
     OR push_bit 6 (of_bool (pv_is_high_fence_supremum v))
     OR push_bit 7 (ucast (pv_key_count v))
     OR push_bit 14 (ucast (pv_insert_counter v))
     OR push_bit 22 (ucast (pv_split_counter v))"

definition is_locked :: "PageVersion \<Rightarrow> bool" where
  "is_locked v = pv_locked v"

definition has_foster_child :: "PageVersion \<Rightarrow> bool" where
  "has_foster_child v = pv_has_foster_child v"

definition get_key_count :: "PageVersion \<Rightarrow> uint8" where
  "get_key_count v = ucast (pv_key_count v)"

definition set_key_count :: "PageVersion \<Rightarrow> uint8 \<Rightarrow> PageVersion" where
  "set_key_count v n = v\<lparr>pv_key_count := ucast n\<rparr>"

definition get_split_counter :: "PageVersion \<Rightarrow> uint32" where
  "get_split_counter v = pv_split_counter v"

definition set_inserting_and_increment_key_count :: "PageVersion \<Rightarrow> PageVersion" where
  "set_inserting_and_increment_key_count v =
     v\<lparr>pv_inserting := True, pv_key_count := pv_key_count v + 1\<rparr>"

text \<open>
  "\<^verbatim>\<open>lock()\<close>: atomic compare-and-swap that sets the lock bit"; "\<^verbatim>\<open>unlock()\<close>: clears flags,
  increments the appropriate counter (insert or split), and releases the lock."
\<close>
definition lock_version :: "PageVersion \<Rightarrow> PageVersion" where
  "lock_version v = v\<lparr>pv_locked := True\<rparr>"

definition unlock_version :: "PageVersion \<Rightarrow> PageVersion" where
  "unlock_version v =
     v\<lparr>pv_locked := False, pv_inserting := False, pv_splitting := False,
       pv_insert_counter := (if pv_inserting v then pv_insert_counter v + 1 else pv_insert_counter v),
       pv_split_counter := (if pv_splitting v then pv_split_counter v + 1 else pv_split_counter v)\<rparr>"


subsection \<open>Page pointers\<close>

text \<open>
  Modelled from the spec: \<^verbatim>\<open>VolatilePagePointer\<close> and \<^verbatim>\<open>DualPagePointer\<close> (their header is
  missing).  "A pair (snapshot page ID, volatile page reference) ... The volatile reference
  carries flags (swappable-root, mod-count)."  The source reads the volatile pointer both as
  one \<^verbatim>\<open>word\<close> and through its \<^verbatim>\<open>components\<close>; the record holds the components, and the
  all-zero record is the word 0.
\<close>
record VolatilePagePointer =
  vp_numa_node :: uint8
  vp_flags :: uint8
  vp_mod_count :: uint16
  vp_offset :: uint32

record DualPagePointer =
  snapshot_pointer :: uint64
  volatile_pointer :: VolatilePagePointer

definition null_volatile_pointer :: VolatilePagePointer where
  "null_volatile_pointer = \<lparr>vp_numa_node = 0, vp_flags = 0, vp_mod_count = 0, vp_offset = 0\<rparr>"

definition combine_volatile_page_pointer ::
  "uint8 \<Rightarrow> uint8 \<Rightarrow> uint16 \<Rightarrow> uint32 \<Rightarrow> VolatilePagePointer" where
  "combine_volatile_page_pointer numa_node flags mod_count offset =
     \<lparr>vp_numa_node = numa_node, vp_flags = flags, vp_mod_count = mod_count, vp_offset = offset\<rparr>"

text \<open>
  Modelled from the spec: the flag \<^verbatim>\<open>kVolatilePointerFlagSwappable\<close>; only that it is a
  nonzero flag value matters.
\<close>
definition kVolatilePointerFlagSwappable :: uint8 where
  "kVolatilePointerFlagSwappable = 2"

definition is_both_null :: "DualPagePointer \<Rightarrow> bool" where
  "is_both_null p = (snapshot_pointer p = 0 \<and> volatile_pointer p = null_volatile_pointer)"

text \<open>
  A page is addressed by its node and its offset in that node's pool; the page resolvers
  map a volatile pointer, or an offset of the caller's own node, to that address.
  A C++ page pointer is such an address, and \<^verbatim>\<open>nullptr\<close> is \<open>None\<close>.
\<close>
type_synonym page_ref = "uint8 \<times> uint32"

definition resolve_offset :: "VolatilePagePointer \<Rightarrow> page_ref" where
  "resolve_offset p = (vp_numa_node p, vp_offset p)"

subsection \<open>Pages\<close>

text \<open>
  Modelled from the spec: the border page slot.  "A sorted-by-insertion slot array holding
  {hash slice, key length, suffix offset, owner-id word (XctId), payload length}, and a
  contiguous record area.  A slot may be a next-layer pointer instead of a record."
  \<open>slot_record\<close> is the record area of the slot from \<^verbatim>\<open>get_record(index)\<close> on: the key suffix
  followed by the payload.
\<close>
record BorderSlot =
  slot_slice :: KeySlice
  slot_remaining_key_length :: uint8
  slot_owner_id :: XctId
  slot_payload_length :: uint16
  slot_record :: "nat \<Rightarrow> uint8"
  slot_points_to_layer :: bool
  slot_next_layer :: DualPagePointer

text \<open>
  Modelled from the spec: a minipage of an intermediate page, with "its own version word
  with its own lock and key count", separators and child pointers.
\<close>
record MiniPage =
  mini_version :: PageVersion
  separators :: "nat \<Rightarrow> KeySlice"
  pointers :: "nat \<Rightarrow> DualPagePointer"

text \<open>
  Modelled from the spec: the common page header (\<^verbatim>\<open>MasstreePage\<close>), with the body of a
  border page (\<open>pg_slots\<close>) and of an intermediate page (\<open>pg_minipages\<close>,
  \<open>pg_separators\<close>); the version's border bit tells which body is in use.
\<close>
record MasstreePage =
  pg_storage_id :: uint32
  pg_page_id :: VolatilePagePointer
  pg_snapshot :: bool
  pg_layer :: uint8
  pg_version :: PageVersion
  pg_low_fence :: KeySlice
  pg_high_fence :: KeySlice
  pg_foster_fence :: KeySlice
  pg_foster_child :: "page_ref option"
  pg_slots :: "nat \<Rightarrow> BorderSlot"
  pg_minipages :: "nat \<Rightarrow> MiniPage"
  pg_separators :: "nat \<Rightarrow> KeySlice"

definition kInfimumSlice :: KeySlice where
  "kInfimumSlice = 0"

definition kSupremumSlice :: KeySlice where
  "kSupremumSlice = - 1"

subsection \<open>Transaction context and world\<close>

text \<open>
  An owner-id lives in a slot of a page; a root pointer is either the storage's first root
  pointer or the next-layer pointer of a border slot.
\<close>
type_synonym owner_address = "page_ref \<times> nat"

datatype pointer_address = FirstRootPointer | NextLayerPointer page_ref nat

text \<open>
  Modelled from the spec: the redo records.  "The caller reserves space in the worker's log
  buffer for a typed redo record (overwrite / insert / delete)".  The payload is kept as
  bytes.
\<close>
datatype LogEntry =
    MasstreeInsertLog uint32 "uint8 list" nat "uint8 list" nat uint8
  | MasstreeDeleteLog uint32 "uint8 list" nat uint8
  | MasstreeOverwriteLog uint32 "uint8 list" nat "uint8 list" nat nat uint8
  | ArrayOverwriteLog uint32 uint64 "uint8 list" nat nat

text \<open>
  Modelled from the spec: the record sets of a transaction.  "Read-set: (storage, owner-id
  address, observed XctId).  Write-set: (storage, owner-id address, record address,
  log-record pointer).  Pointer-set: (volatile-pointer address, observed value)."
\<close>
record Xct =
  read_set :: "(uint32 \<times> owner_address \<times> XctId) list"
  write_set :: "(uint32 \<times> owner_address \<times> LogEntry) list"
  pointer_set :: "(pointer_address \<times> VolatilePagePointer) list"
  max_read_set_size :: nat
  max_write_set_size :: nat
  max_pointer_set_size :: nat

text \<open>
  The state a Masstree operation works on: the page pools, the storage's first root pointer
  and identifier, and the calling thread's node, identifier, free pages, transaction and
  log buffer.  \<open>w_now\<close> counts the reads of shared memory at which other threads may have
  acted (see \<open>observe\<close>).
\<close>
record world =
  w_pages :: "page_ref \<Rightarrow> MasstreePage"
  w_first_root_pointer :: DualPagePointer
  w_storage_id :: uint32
  w_numa_node :: uint8
  w_thread_id :: uint16
  w_free_pages :: "uint32 list"
  w_xct :: Xct
  w_log_buffer :: "LogEntry list"
  w_now :: nat

text \<open>
  Other threads are an environment: at the \<open>n\<close>-th such read it turns the pages \<open>h\<close> into
  \<open>env n h\<close>.  The identity environment is a run without interference.
\<close>
type_synonym environment = "nat \<Rightarrow> (page_ref \<Rightarrow> MasstreePage) \<Rightarrow> (page_ref \<Rightarrow> MasstreePage)"

definition observe :: "environment \<Rightarrow> world \<Rightarrow> world" where
  "observe env w = w\<lparr>w_pages := env (w_now w) (w_pages w), w_now := Suc (w_now w)\<rparr>"

definition no_interference :: environment where
  "no_interference = (\<lambda>n h. h)"

definition update_page :: "page_ref \<Rightarrow> (MasstreePage \<Rightarrow> MasstreePage) \<Rightarrow> world \<Rightarrow> world" where
  "update_page r f w = w\<lparr>w_pages := (w_pages w)(r := f (w_pages w r))\<rparr>"

definition update_slot :: "nat \<Rightarrow> (BorderSlot \<Rightarrow> BorderSlot) \<Rightarrow> MasstreePage \<Rightarrow> MasstreePage" where
  "update_slot i f p = p\<lparr>pg_slots := (pg_slots p)(i := f (pg_slots p i))\<rparr>"

definition get_owner_id :: "world \<Rightarrow> owner_address \<Rightarrow> XctId" where
  "get_owner_id w a = slot_owner_id (pg_slots (w_pages w (fst a)) (snd a))"

definition set_owner_id :: "owner_address \<Rightarrow> XctId \<Rightarrow> world \<Rightarrow> world" where
  "set_owner_id a x w = update_page (fst a) (update_slot (snd a) (\<lambda>s. s\<lparr>slot_owner_id := x\<rparr>)) w"


subsection \<open>Page pool and page methods\<close>

text \<open>
  Modelled from the spec: the thread's page pool.  "\<^verbatim>\<open>grab()\<close> returns a fresh volatile
  offset from the caller's node pool"; "zero denotes no page".  The source tests the offset
  for zero.
\<close>
definition grab_free_volatile_page :: "world \<Rightarrow> uint32 \<times> world" where
  "grab_free_volatile_page w =
     (case w_free_pages w of
        [] \<Rightarrow> (0, w)
      | x # xs \<Rightarrow> (x, w\<lparr>w_free_pages := xs\<rparr>))"

definition release_free_volatile_page :: "uint32 \<Rightarrow> world \<Rightarrow> world" where
  "release_free_volatile_page offset w = w\<lparr>w_free_pages := offset # w_free_pages w\<rparr>"

definition resolve_local :: "world \<Rightarrow> uint32 \<Rightarrow> page_ref" where
  "resolve_local w offset = (w_numa_node w, offset)"

text \<open>
  Modelled from the spec: \<^verbatim>\<open>initialize_volatile_page\<close> of the page classes, from the
  arguments the source passes (storage, page id, layer, root flag, low fence, high fence,
  supremum flag, foster fence, foster child, initially locked).  The first argument tells
  whether the object is a border page or an intermediate page.
\<close>
definition initialize_volatile_page ::
  "bool \<Rightarrow> uint32 \<Rightarrow> VolatilePagePointer \<Rightarrow> uint8 \<Rightarrow> bool \<Rightarrow> KeySlice \<Rightarrow> KeySlice \<Rightarrow> bool
     \<Rightarrow> KeySlice \<Rightarrow> page_ref option \<Rightarrow> bool \<Rightarrow> MasstreePage \<Rightarrow> MasstreePage" where
  "initialize_volatile_page border storage_id page_id layer root_in_layer low_fence high_fence
       is_high_fence_supremum foster_fence foster_child initially_locked p =
     p\<lparr>pg_storage_id := storage_id,
       pg_page_id := page_id,
       pg_snapshot := False,
       pg_layer := layer,
       pg_version :=
         \<lparr>pv_locked = initially_locked, pv_inserting = False, pv_splitting = False,
          pv_has_foster_child = (foster_child \<noteq> None), pv_is_root = root_in_layer,
          pv_is_border = border, pv_is_high_fence_supremum = is_high_fence_supremum,
          pv_key_count = 0, pv_insert_counter = 0, pv_split_counter = 0\<rparr>,
       pg_low_fence := low_fence,
       pg_high_fence := high_fence,
       pg_foster_fence := foster_fence,
       pg_foster_child := foster_child\<rparr>"

definition get_version :: "world \<Rightarrow> page_ref \<Rightarrow> PageVersion" where
  "get_version w r = pg_version (w_pages w r)"

definition update_version :: "page_ref \<Rightarrow> (PageVersion \<Rightarrow> PageVersion) \<Rightarrow> world \<Rightarrow> world" where
  "update_version r f w = update_page r (\<lambda>p. p\<lparr>pg_version := f (pg_version p)\<rparr>) w"

definition get_layer :: "world \<Rightarrow> page_ref \<Rightarrow> uint8" where
  "get_layer w r = pg_layer (w_pages w r)"

definition is_border :: "world \<Rightarrow> page_ref \<Rightarrow> bool" where
  "is_border w r = pv_is_border (pg_version (w_pages w r))"

definition get_foster_child :: "world \<Rightarrow> page_ref \<Rightarrow> page_ref option" where
  "get_foster_child w r = pg_foster_child (w_pages w r)"

definition get_foster_fence :: "world \<Rightarrow> page_ref \<Rightarrow> KeySlice" where
  "get_foster_fence w r = pg_foster_fence (w_pages w r)"

text \<open>Modelled from the spec: \<^verbatim>\<open>clear_foster\<close> "clears the old root's foster link".\<close>
definition clear_foster :: "page_ref \<Rightarrow> world \<Rightarrow> world" where
  "clear_foster r w =
     update_page r (\<lambda>p. p\<lparr>pg_foster_child := None,
                          pg_version := (pg_version p)\<lparr>pv_has_foster_child := False\<rparr>\<rparr>) w"

text \<open>
  \<^verbatim>\<open>lock()\<close> of a page spins until the lock bit is clear and sets it.  Between two looks at
  the version word other threads act.  \<open>None\<close> is a spin that never ends.
\<close>
partial_function (option) lock_page :: "environment \<Rightarrow> page_ref \<Rightarrow> world \<Rightarrow> world option" where
  "lock_page env r w =
     (let w1 = observe env w in
      if is_locked (get_version w1 r) then lock_page env r w1
      else Some (update_version r lock_version w1))"

declare lock_page.simps [code]

text \<open>The destructor of \<^verbatim>\<open>UnlockScope\<close>.\<close>
definition unlock_page :: "page_ref \<Rightarrow> world \<Rightarrow> world" where
  "unlock_page r w = update_version r unlock_version w"

text \<open>
  Modelled from the spec: "\<^verbatim>\<open>stable_version()\<close>: spin-read until the lock bit is clear;
  returns the observed word by value."
\<close>
partial_function (option) get_stable_version ::
  "environment \<Rightarrow> page_ref \<Rightarrow> world \<Rightarrow> (PageVersion \<times> world) option" where
  "get_stable_version env r w =
     (let w1 = observe env w in
      if is_locked (get_version w1 r) then get_stable_version env r w1
      else Some (get_version w1 r, w1))"

declare get_stable_version.simps [code]

text \<open>
  Modelled from the spec: \<^verbatim>\<open>keylock_unconditional\<close> "lock-acquires the record's owner-id
  unconditionally": it spins until the key lock is free and takes it.
\<close>
partial_function (option) keylock_unconditional ::
  "environment \<Rightarrow> owner_address \<Rightarrow> world \<Rightarrow> world option" where
  "keylock_unconditional env a w =
     (let w1 = observe env w in
      if is_keylocked (get_owner_id w1 a) then keylock_unconditional env a w1
      else Some (set_owner_id a ((get_owner_id w1 a)\<lparr>xid_keylocked := True\<rparr>) w1))"

declare keylock_unconditional.simps [code]

definition does_point_to_layer :: "world \<Rightarrow> page_ref \<Rightarrow> nat \<Rightarrow> bool" where
  "does_point_to_layer w r i = slot_points_to_layer (pg_slots (w_pages w r) i)"

definition get_next_layer :: "world \<Rightarrow> page_ref \<Rightarrow> nat \<Rightarrow> DualPagePointer" where
  "get_next_layer w r i = slot_next_layer (pg_slots (w_pages w r) i)"

text \<open>
  Modelled from the spec: \<^verbatim>\<open>set_next_layer\<close> "sets the parent slot to next-layer pointing
  at the new root".
\<close>
definition set_next_layer :: "page_ref \<Rightarrow> nat \<Rightarrow> DualPagePointer \<Rightarrow> world \<Rightarrow> world" where
  "set_next_layer r i pointer w =
     update_page r (update_slot i (\<lambda>s. s\<lparr>slot_points_to_layer := True, slot_next_layer := pointer\<rparr>)) w"

text \<open>
  Modelled from the spec: the length of the key suffix kept in the record area, the part of
  the remaining key beyond the 8-byte slice of the layer.
\<close>
definition suffix_length_of :: "uint8 \<Rightarrow> nat" where
  "suffix_length_of remaining = (if 8 < unat remaining then unat remaining - 8 else 0)"

definition get_suffix_length :: "world \<Rightarrow> page_ref \<Rightarrow> nat \<Rightarrow> nat" where
  "get_suffix_length w r i = suffix_length_of (slot_remaining_key_length (pg_slots (w_pages w r) i))"

definition get_payload_length :: "world \<Rightarrow> page_ref \<Rightarrow> nat \<Rightarrow> uint16" where
  "get_payload_length w r i = slot_payload_length (pg_slots (w_pages w r) i)"

text \<open>Eight bytes, most significant first, as a slice (\<^verbatim>\<open>slice_key\<close>, missing from the sources).\<close>
definition slice_of_bytes :: "uint8 list \<Rightarrow> KeySlice" where
  "slice_of_bytes bs = foldl (\<lambda>acc b. push_bit 8 acc OR ucast b) 0 (take 8 (bs @ replicate 8 0))"

text \<open>
  Modelled from the spec: \<^verbatim>\<open>copy_initial_record\<close> "copies the existing record as its sole
  initial entry" of the new layer root.  The next eight bytes of the key suffix become the
  slice, the rest of the suffix and the payload follow in the record area, and the owner-id
  is taken over with its deleted flag, without the key lock that the copying thread holds
  on the original.  The page then has one key.
\<close>
definition copy_initial_record :: "page_ref \<Rightarrow> page_ref \<Rightarrow> nat \<Rightarrow> world \<Rightarrow> world" where
  "copy_initial_record root parent parent_index w =
     (let from = pg_slots (w_pages w parent) parent_index;
          remaining = slot_remaining_key_length from - 8;
          old_suffix = suffix_length_of (slot_remaining_key_length from);
          new_suffix = suffix_length_of remaining;
          new_slot = \<lparr>slot_slice = slice_of_bytes (map (slot_record from) [0 ..< min 8 old_suffix]),
                      slot_remaining_key_length = remaining,
                      slot_owner_id = release_keylock (slot_owner_id from),
                      slot_payload_length = slot_payload_length from,
                      slot_record = (\<lambda>n. slot_record from (n + (old_suffix - new_suffix))),
                      slot_points_to_layer = False,
                      slot_next_layer = slot_next_layer from\<rparr>
      in update_page root
           (\<lambda>p. p\<lparr>pg_slots := (pg_slots p)(0 := new_slot),
                  pg_version := set_key_count (pg_version p) 1\<rparr>) w)"

subsection \<open>Pointer-set and root pointers\<close>

definition read_pointer :: "world \<Rightarrow> pointer_address \<Rightarrow> DualPagePointer" where
  "read_pointer w a =
     (case a of
        FirstRootPointer \<Rightarrow> w_first_root_pointer w
      | NextLayerPointer r i \<Rightarrow> get_next_layer w r i)"

definition write_pointer :: "pointer_address \<Rightarrow> DualPagePointer \<Rightarrow> world \<Rightarrow> world" where
  "write_pointer a p w =
     (case a of
        FirstRootPointer \<Rightarrow> w\<lparr>w_first_root_pointer := p\<rparr>
      | NextLayerPointer r i \<Rightarrow> update_page r (update_slot i (\<lambda>s. s\<lparr>slot_next_layer := p\<rparr>)) w)"

text \<open>
  Modelled from the spec: the pointer-set of the transaction (\<^verbatim>\<open>xct.hpp\<close> is missing).
  \<^verbatim>\<open>add_to_pointer_set\<close> appends (address, observed value); the source checks its result
  code, and the model lets it fail when the set is full.  \<^verbatim>\<open>overwrite_to_pointer_set\<close>
  replaces the observed value of the entries for the address.
\<close>
definition add_to_pointer_set :: "pointer_address \<Rightarrow> VolatilePagePointer \<Rightarrow> world \<Rightarrow> ErrorCode \<times> world" where
  "add_to_pointer_set a observed w =
     (if max_pointer_set_size (w_xct w) \<le> length (pointer_set (w_xct w))
      then (kErrorCodeOther 1, w)
      else (kErrorCodeOk, w\<lparr>w_xct := (w_xct w)\<lparr>pointer_set := pointer_set (w_xct w) @ [(a, observed)]\<rparr>\<rparr>))"

definition overwrite_to_pointer_set :: "pointer_address \<Rightarrow> VolatilePagePointer \<Rightarrow> world \<Rightarrow> world" where
  "overwrite_to_pointer_set a observed w =
     w\<lparr>w_xct := (w_xct w)\<lparr>pointer_set :=
          map (\<lambda>e. if fst e = a then (a, observed) else e) (pointer_set (w_xct w))\<rparr>\<rparr>"


section \<open>Masstree storage: structural operations\<close>

text \<open>
  The functions below return \<open>None\<close> for a run that never returns (an endless spin) or that
  dereferences a null page pointer, and otherwise the error code with the state reached.
\<close>

subsection \<open>\<^verbatim>\<open>MasstreeStoragePimpl::grow_root\<close>\<close>

definition update_minipage :: "nat \<Rightarrow> (MiniPage \<Rightarrow> MiniPage) \<Rightarrow> MasstreePage \<Rightarrow> MasstreePage" where
  "update_minipage i f p = p\<lparr>pg_minipages := (pg_minipages p)(i := f (pg_minipages p i))\<rparr>"

definition grow_root ::
  "environment \<Rightarrow> pointer_address \<Rightarrow> page_ref \<Rightarrow> world \<Rightarrow> (ErrorCode \<times> world) option" where
  "grow_root env root_pointer root w =
     (case lock_page env root w of
        None \<Rightarrow> None
      | Some w1 \<Rightarrow>
          (let locked_version = get_version w1 root in
           if \<not> has_foster_child locked_version
           then Some (kErrorCodeStrMasstreeRetry, unlock_page root w1)
           else
             (case grab_free_volatile_page w1 of (offset, w2) \<Rightarrow>
                if offset = 0 then Some (kErrorCodeMemoryNoFreePages, unlock_page root w2)
                else
                  (let new_root = resolve_local w2 offset;
                       new_pointer = combine_volatile_page_pointer
                         (w_numa_node w2)
                         kVolatilePointerFlagSwappable
                         (vp_mod_count (volatile_pointer (read_pointer w2 root_pointer)) + 1)
                         offset;
                       w3 = update_page new_root
                         (initialize_volatile_page False (w_storage_id w2) new_pointer
                            (get_layer w2 root) True kInfimumSlice kSupremumSlice True
                            kInfimumSlice None True) w2;
                       w4 = update_version new_root (\<lambda>v. set_key_count v 0) w3
                   in case get_foster_child w4 root of
                        None \<Rightarrow> None
                      | Some foster_child \<Rightarrow>
                          (let w5 = update_page new_root (update_minipage 0
                                 (\<lambda>m. m\<lparr>mini_version := lock_version (mini_version m)\<rparr>)) w4;
                               w6 = update_page new_root (update_minipage 0
                                 (\<lambda>m. m\<lparr>mini_version := set_key_count (mini_version m) 1\<rparr>)) w5;
                               pointer0 = \<lparr>snapshot_pointer = 0,
                                  volatile_pointer =
                                    (volatile_pointer (read_pointer w6 root_pointer))\<lparr>vp_flags := 0\<rparr>\<rparr>;
                               w7 = update_page new_root (update_minipage 0
                                 (\<lambda>m. m\<lparr>pointers := (pointers m)(0 := pointer0)\<rparr>)) w6;
                               pointer1 = \<lparr>snapshot_pointer = 0,
                                  volatile_pointer =
                                    (pg_page_id (w_pages w7 foster_child))\<lparr>vp_flags := 0\<rparr>\<rparr>;
                               w8 = update_page new_root (update_minipage 0
                                 (\<lambda>m. m\<lparr>pointers := (pointers m)(1 := pointer1)\<rparr>)) w7;
                               w9 = update_page new_root (update_minipage 0
                                 (\<lambda>m. m\<lparr>separators := (separators m)(0 := get_foster_fence w8 root)\<rparr>)) w8;
                               w10 = update_page new_root (update_minipage 0
                                 (\<lambda>m. m\<lparr>mini_version := unlock_version (mini_version m)\<rparr>)) w9;
                               w11 = clear_foster root w10;
                               w12 = write_pointer root_pointer
                                  \<lparr>snapshot_pointer = 0, volatile_pointer = new_pointer\<rparr> w11;
                               w13 = overwrite_to_pointer_set root_pointer new_pointer w12
                           in Some (kErrorCodeOk, unlock_page root (unlock_page new_root w13)))))))"

subsection \<open>\<^verbatim>\<open>MasstreeStoragePimpl::create_next_layer\<close>\<close>

text \<open>
  The lines of \<^verbatim>\<open>create_next_layer\<close> that compute the owner-id with which the parent slot is
  released, from the owner-id read under the key lock.
\<close>
definition next_layer_owner_id :: "XctId \<Rightarrow> XctId" where
  "next_layer_owner_id parent_lock =
     (let unlocked_id = release_keylock parent_lock;
          ordinal = get_ordinal unlocked_id;
          (unlocked_id, ordinal) =
             (if ordinal \<noteq> 0xFFFF then (unlocked_id, ordinal + 1)
              else (set_epoch unlocked_id (one_more (get_epoch unlocked_id)), 0));
          unlocked_id = set_ordinal unlocked_id ordinal;
          unlocked_id = (if is_deleted unlocked_id then set_notdeleted unlocked_id else unlocked_id)
      in unlocked_id)"

definition create_next_layer ::
  "environment \<Rightarrow> page_ref \<Rightarrow> nat \<Rightarrow> world \<Rightarrow> (ErrorCode \<times> world) option" where
  "create_next_layer env parent parent_index w =
     (case grab_free_volatile_page w of (offset, w1) \<Rightarrow>
        if offset = 0 then Some (kErrorCodeMemoryNoFreePages, w1)
        else
          (let root = resolve_local w1 offset;
               pointer = \<lparr>snapshot_pointer = 0,
                          volatile_pointer = combine_volatile_page_pointer (w_numa_node w1) 0 0 offset\<rparr>;
               parent_lock = (parent, parent_index)
           in case keylock_unconditional env parent_lock w1 of
                None \<Rightarrow> None
              | Some w2 \<Rightarrow>
                  if does_point_to_layer w2 parent parent_index
                  then
                    (let w3 = release_free_volatile_page offset w2;
                         w4 = set_owner_id parent_lock (release_keylock (get_owner_id w3 parent_lock)) w3
                     in Some (kErrorCodeOk, w4))
                  else
                    (let w3 = update_page root
                           (initialize_volatile_page True (w_storage_id w2) (volatile_pointer pointer)
                              (get_layer w2 parent + 1) True kInfimumSlice kSupremumSlice True
                              kInfimumSlice None True) w2;
                         w4 = copy_initial_record root parent parent_index w3;
                         w5 = set_next_layer parent parent_index pointer w4;
                         unlocked_id = next_layer_owner_id (get_owner_id w5 parent_lock);
                         w6 = set_owner_id parent_lock unlocked_id w5
                     in Some (kErrorCodeOk, unlock_page root w6))))"

subsection \<open>\<^verbatim>\<open>MasstreeStoragePimpl::reserve_record_new_record_apply\<close>\<close>

text \<open>
  Modelled from the spec: \<^verbatim>\<open>reserve_record_space\<close> of the border page: "append a new slot
  with an initially-deleted owner-id".  It fills the slot at the index with the slice, the
  key length, the owner-id and the payload length, and copies the key suffix to the start of
  the record area.
\<close>
definition reserve_record_space ::
  "page_ref \<Rightarrow> nat \<Rightarrow> XctId \<Rightarrow> KeySlice \<Rightarrow> uint8 list \<Rightarrow> uint8 \<Rightarrow> uint16 \<Rightarrow> world \<Rightarrow> world" where
  "reserve_record_space target i initial_owner_id kslice suffix remaining_length payload_count w =
     update_page target (update_slot i
       (\<lambda>s. s\<lparr>slot_slice := kslice,
              slot_remaining_key_length := remaining_length,
              slot_owner_id := initial_owner_id,
              slot_payload_length := payload_count,
              slot_record := (\<lambda>n. if n < suffix_length_of remaining_length \<and> n < length suffix
                                   then suffix ! n else slot_record s n),
              slot_points_to_layer := False\<rparr>)) w"

definition reserve_record_new_record_apply ::
  "page_ref \<Rightarrow> nat \<Rightarrow> KeySlice \<Rightarrow> uint8 \<Rightarrow> uint8 list \<Rightarrow> uint16 \<Rightarrow> world \<Rightarrow> world" where
  "reserve_record_new_record_apply target target_index kslice remaining_key_length suffix payload_count w =
     (let w1 = update_version target set_inserting_and_increment_key_count w;
          initial_id = set_clean kEpochInitialCurrent 0 (w_thread_id w1);
          initial_id = set_deleted initial_id
      in reserve_record_space target target_index initial_id kslice suffix remaining_key_length
           payload_count w1)"


subsection \<open>\<^verbatim>\<open>MasstreeStoragePimpl::create\<close>\<close>

text \<open>
  \<open>exist\<close> is the storage's \<^verbatim>\<open>exist_\<close> flag, returned updated.  The registration with the
  storage manager is outside the model.
\<close>
definition create :: "bool \<Rightarrow> world \<Rightarrow> ErrorCode \<times> bool \<times> world" where
  "create exist w =
     (if exist then (kErrorCodeStrAlreadyExists, exist, w)
      else
        (case grab_free_volatile_page w of (root_offset, w1) \<Rightarrow>
           (let root_page = resolve_local w1 root_offset;
                w2 = w1\<lparr>w_first_root_pointer :=
                       \<lparr>snapshot_pointer = 0,
                        volatile_pointer = combine_volatile_page_pointer (w_numa_node w1)
                           kVolatilePointerFlagSwappable 0 root_offset\<rparr>\<rparr>;
                w3 = update_page root_page
                       (initialize_volatile_page True (w_storage_id w2)
                          (volatile_pointer (w_first_root_pointer w2)) 0 True kInfimumSlice
                          kSupremumSlice True kInfimumSlice None False) w2
            in (kErrorCodeOk, True, w3))))"


section \<open>Masstree storage: reading and staging writes\<close>

subsection \<open>Read-set, write-set and log buffer\<close>

text \<open>
  Modelled from the spec: \<^verbatim>\<open>Xct::add_to_read_set\<close>, \<^verbatim>\<open>Xct::add_to_write_set\<close> and
  \<^verbatim>\<open>ThreadLogBuffer::reserve_new_log\<close> (their headers are missing).  "On success, append
  (address, observed XctId) to the read-set"; "the caller reserves space in the worker's
  log buffer for a typed redo record, appends a write-set entry referencing the owner-id,
  the record location, and the log record".  The source passes on the result code of the
  two \<^verbatim>\<open>add_to\<close> functions; the model lets them fail when the set is full.
\<close>
definition add_to_read_set :: "uint32 \<Rightarrow> owner_address \<Rightarrow> XctId \<Rightarrow> world \<Rightarrow> ErrorCode \<times> world" where
  "add_to_read_set storage a observed w =
     (if max_read_set_size (w_xct w) \<le> length (read_set (w_xct w))
      then (kErrorCodeOther 2, w)
      else (kErrorCodeOk,
            w\<lparr>w_xct := (w_xct w)\<lparr>read_set := read_set (w_xct w) @ [(storage, a, observed)]\<rparr>\<rparr>))"

definition add_to_write_set :: "uint32 \<Rightarrow> owner_address \<Rightarrow> LogEntry \<Rightarrow> world \<Rightarrow> ErrorCode \<times> world" where
  "add_to_write_set storage a log_entry w =
     (if max_write_set_size (w_xct w) \<le> length (write_set (w_xct w))
      then (kErrorCodeOther 3, w)
      else (kErrorCodeOk,
            w\<lparr>w_xct := (w_xct w)\<lparr>write_set := write_set (w_xct w) @ [(storage, a, log_entry)]\<rparr>\<rparr>))"

definition reserve_new_log :: "LogEntry \<Rightarrow> world \<Rightarrow> world" where
  "reserve_new_log log_entry w = w\<lparr>w_log_buffer := w_log_buffer w @ [log_entry]\<rparr>"

subsection \<open>Primitive payloads as bytes\<close>

text \<open>
  A payload of a primitive type is read from and written to the record bytes in the byte
  order of the machine, least significant byte first.  \<^verbatim>\<open>sizeof(PAYLOAD)\<close> is the number of
  bytes of the word type.
\<close>
definition bytes_of :: "'a::len word \<Rightarrow> uint8 list" where
  "bytes_of v = map (\<lambda>i. ucast (drop_bit (8 * i) v)) [0 ..< LENGTH('a) div 8]"

definition word_of_bytes :: "uint8 list \<Rightarrow> 'a::len word" where
  "word_of_bytes bs = foldr (\<lambda>b acc. ucast b OR push_bit 8 acc) bs 0"

definition read_primitive :: "(nat \<Rightarrow> uint8) \<Rightarrow> nat \<Rightarrow> 'a::len word" where
  "read_primitive mem off = word_of_bytes (map (\<lambda>i. mem (off + i)) [0 ..< LENGTH('a) div 8])"

text \<open>\<^verbatim>\<open>std::memcpy\<close> into the front of a buffer.\<close>
definition memcpy :: "uint8 list \<Rightarrow> uint8 list \<Rightarrow> uint8 list" where
  "memcpy buffer src = src @ drop (length src) buffer"

subsection \<open>The optimistic read protocol\<close>

text \<open>
  Modelled from the spec: \<^verbatim>\<open>xct::optimistic_read_protocol\<close> (header
  \<^verbatim>\<open>xct_optimistic_read_impl.hpp\<close> is missing).  "1. Read the owner-id word with acquire; if
  lock bit is set, spin with bounded pause; if the record is marked moved, return a retry
  code so the caller re-navigates.  2. Copy payload bytes.  3. Re-read the owner-id; if
  changed or now locked, repeat.  4. On success, append (address, observed XctId) to the
  read-set and return."  Step 2 is the handler that the caller passes; an error code of the
  handler ends the protocol with that code.  The handler works on the variables \<open>h\<close> that
  the lambda of the source captures by address.  Other threads act before every read of the
  owner-id and before every run of the handler.
\<close>
partial_function (option) spin_while_keylocked ::
  "environment \<Rightarrow> owner_address \<Rightarrow> world \<Rightarrow> (XctId \<times> world) option" where
  "spin_while_keylocked env a w =
     (let w1 = observe env w in
      if is_keylocked (get_owner_id w1 a) then spin_while_keylocked env a w1
      else Some (get_owner_id w1 a, w1))"

declare spin_while_keylocked.simps [code]

partial_function (option) optimistic_read_loop ::
  "environment \<Rightarrow> owner_address \<Rightarrow> (XctId \<Rightarrow> world \<Rightarrow> 'h \<Rightarrow> ErrorCode \<times> 'h) \<Rightarrow> XctId \<Rightarrow> world \<Rightarrow> 'h
     \<Rightarrow> (ErrorCode \<times> XctId \<times> world \<times> 'h) option" where
  "optimistic_read_loop env a handler observed w h =
     (if xid_moved observed then Some (kErrorCodeStrMasstreeRetry, observed, w, h)
      else
        (let w1 = observe env w in
         case handler observed w1 h of (code, h1) \<Rightarrow>
           if code \<noteq> kErrorCodeOk then Some (code, observed, w1, h1)
           else
             (case spin_while_keylocked env a w1 of
                None \<Rightarrow> None
              | Some (observed_again, w2) \<Rightarrow>
                  if observed = observed_again then Some (kErrorCodeOk, observed, w2, h1)
                  else optimistic_read_loop env a handler observed_again w2 h1)))"

declare optimistic_read_loop.simps [code]

text \<open>
  The argument \<open>in_snapshot\<close> is not described by the spec; a snapshot page does not
  change, and the model then runs the handler once on the owner-id as it is, without a
  read-set entry.
\<close>
definition optimistic_read_protocol ::
  "environment \<Rightarrow> uint32 \<Rightarrow> owner_address \<Rightarrow> bool \<Rightarrow> (XctId \<Rightarrow> world \<Rightarrow> 'h \<Rightarrow> ErrorCode \<times> 'h)
     \<Rightarrow> world \<Rightarrow> 'h \<Rightarrow> (ErrorCode \<times> world \<times> 'h) option" where
  "optimistic_read_protocol env storage a in_snapshot handler w h =
     (if in_snapshot
      then (case handler (get_owner_id w a) w h of (code, h1) \<Rightarrow> Some (code, w, h1))
      else
        (case spin_while_keylocked env a w of
           None \<Rightarrow> None
         | Some (observed, w1) \<Rightarrow>
             (case optimistic_read_loop env a handler observed w1 h of
                None \<Rightarrow> None
              | Some (code, observed', w2, h1) \<Rightarrow>
                  if code \<noteq> kErrorCodeOk then Some (code, w2, h1)
                  else (case add_to_read_set storage a observed' w2 of
                          (code', w3) \<Rightarrow> Some (code', w3, h1)))))"

subsection \<open>\<^verbatim>\<open>MasstreeStoragePimpl::retrieve_general\<close>\<close>

text \<open>
  The lambda of \<^verbatim>\<open>retrieve_general\<close>; it captures the payload buffer and
  \<^verbatim>\<open>*payload_capacity\<close>.
\<close>
definition retrieve_handler ::
  "page_ref \<Rightarrow> nat \<Rightarrow> XctId \<Rightarrow> world \<Rightarrow> uint8 list \<times> uint16 \<Rightarrow> ErrorCode \<times> (uint8 list \<times> uint16)" where
  "retrieve_handler border index observed w h =
     (case h of (payload, payload_capacity) \<Rightarrow>
        if does_point_to_layer w border index then (kErrorCodeStrMasstreeRetry, h)
        else if is_deleted observed then (kErrorCodeStrKeyNotFound, h)
        else
          (let payload_length = get_payload_length w border index in
           if payload_length > payload_capacity
           then (kErrorCodeStrTooSmallPayloadBuffer, (payload, payload_length))
           else
             (let suffix_length = get_suffix_length w border index;
                  src = map (slot_record (pg_slots (w_pages w border) index))
                          [suffix_length ..< suffix_length + unat payload_length]
              in (kErrorCodeOk, (memcpy payload src, payload_length)))))"


subsection \<open>\<^verbatim>\<open>MasstreeStoragePimpl::increment_general\<close>\<close>

text \<open>The lambda of \<^verbatim>\<open>increment_general\<close>; it captures the address of the local \<^verbatim>\<open>tmp\<close>.\<close>
definition increment_handler ::
  "page_ref \<Rightarrow> nat \<Rightarrow> nat \<Rightarrow> XctId \<Rightarrow> world \<Rightarrow> 'a::len word \<Rightarrow> ErrorCode \<times> 'a word" where
  "increment_handler border index payload_offset observed w tmp =
     (if does_point_to_layer w border index then (kErrorCodeStrMasstreeRetry, tmp)
      else if is_deleted observed then (kErrorCodeStrKeyNotFound, tmp)
      else if unat (get_payload_length w border index) < payload_offset + LENGTH('a) div 8
      then (kErrorCodeStrTooShortPayload, tmp)
      else
        (let suffix_length = get_suffix_length w border index
         in (kErrorCodeOk,
             read_primitive (slot_record (pg_slots (w_pages w border) index))
               (suffix_length + payload_offset))))"

text \<open>
  A value of the template type \<^verbatim>\<open>PAYLOAD\<close> is held as its object representation, a word
  of \<^verbatim>\<open>sizeof(PAYLOAD)\<close> bytes.  \<open>plus_payload\<close> is the operator \<^verbatim>\<open>+=\<close> of the type on these
  representations: addition modulo the word size for the integer types, signed and
  unsigned, and the addition of the floating-point format for \<^verbatim>\<open>float\<close> and \<^verbatim>\<open>double\<close>, of
  which nothing is assumed.  \<open>tmp\<close> is the content of the uninitialised local \<^verbatim>\<open>tmp\<close> at
  entry.  The result holds the error code, the state, and the content of \<^verbatim>\<open>*value\<close> at
  return.
\<close>
definition increment_general ::
  "environment \<Rightarrow> ('a::len word \<Rightarrow> 'a word \<Rightarrow> 'a word) \<Rightarrow> page_ref \<Rightarrow> nat \<Rightarrow> uint8 list \<Rightarrow> nat
     \<Rightarrow> 'a word \<Rightarrow> nat \<Rightarrow> 'a word \<Rightarrow> world
     \<Rightarrow> (ErrorCode \<times> world \<times> 'a word) option" where
  "increment_general env plus_payload border index be_key key_length val payload_offset tmp w =
     (case optimistic_read_protocol env (w_storage_id w) (border, index) False
             (increment_handler border index payload_offset) w tmp of
        None \<Rightarrow> None
      | Some (code, w1, tmp') \<Rightarrow>
          if code \<noteq> kErrorCodeOk then Some (code, w1, val)
          else
            (let val' = plus_payload val tmp';
                 log_entry = MasstreeOverwriteLog (w_storage_id w1) be_key key_length
                    (bytes_of val') payload_offset (LENGTH('a) div 8) (get_layer w1 border);
                 w2 = reserve_new_log log_entry w1
             in case add_to_write_set (w_storage_id w2) (border, index) log_entry w2 of
                  (code', w3) \<Rightarrow> Some (code', w3, val')))"


section \<open>Array storage: reading and incrementing a record\<close>

text \<open>
  Source: \<^verbatim>\<open>foedus/storage/array/array_storage_pimpl.cpp\<close>, functions \<^verbatim>\<open>lookup\<close>,
  \<^verbatim>\<open>locate_record\<close> and \<^verbatim>\<open>increment_record\<close> of \<^verbatim>\<open>ArrayStoragePimpl\<close>; the model prefixes
  their names with \<open>array\<close>, as the Masstree storage has functions of the same names.
\<close>

text \<open>
  Modelled from the spec: the array page (\<^verbatim>\<open>array_page_impl.hpp\<close> is missing).  "Leaf holds
  records sequentially indexed by offset; interior holds a fixed fanout of dual pointers plus
  a covered offset range."  A record is an owner-id followed by the payload bytes.
\<close>
record ArrayRecord =
  rec_owner_id :: XctId
  rec_payload :: "nat \<Rightarrow> uint8"

record ArrayPage =
  ap_level :: uint8
  ap_range_begin :: uint64
  ap_range_end :: uint64
  ap_leaf_records :: "nat \<Rightarrow> ArrayRecord"
  ap_interior_records :: "nat \<Rightarrow> DualPagePointer"

text \<open>
  The state an array operation works on: the pages, the members \<^verbatim>\<open>metadata_\<close>, \<^verbatim>\<open>root_page_\<close>,
  \<^verbatim>\<open>levels_\<close> and \<^verbatim>\<open>route_finder_\<close> of the storage object, and the transaction and log buffer of
  the calling thread.  The route finder (\<^verbatim>\<open>LookupRouteFinder\<close>, missing from the sources) is
  a parameter: \<open>aw_find_route offset level\<close> is \<^verbatim>\<open>find_route(offset).route[level]\<close>.
\<close>
record array_world =
  aw_pages :: "page_ref \<Rightarrow> ArrayPage"
  aw_metadata :: ArrayMetadata
  aw_root_page :: page_ref
  aw_levels :: uint8
  aw_find_route :: "uint64 \<Rightarrow> nat \<Rightarrow> nat"
  aw_xct :: Xct
  aw_log_buffer :: "LogEntry list"
  aw_now :: nat

type_synonym array_environment = "nat \<Rightarrow> (page_ref \<Rightarrow> ArrayPage) \<Rightarrow> (page_ref \<Rightarrow> ArrayPage)"

definition array_observe :: "array_environment \<Rightarrow> array_world \<Rightarrow> array_world" where
  "array_observe env w = w\<lparr>aw_pages := env (aw_now w) (aw_pages w), aw_now := Suc (aw_now w)\<rparr>"

definition array_no_interference :: array_environment where
  "array_no_interference = (\<lambda>n h. h)"

text \<open>
  The \<^verbatim>\<open>for\<close> loop of \<^verbatim>\<open>lookup\<close>, from \<open>level\<close> down to 1; \<open>Inl\<close> is the error code returned
  from inside the loop.
\<close>
fun array_lookup_loop :: "array_world \<Rightarrow> uint64 \<Rightarrow> nat \<Rightarrow> page_ref \<Rightarrow> ErrorCode + page_ref" where
  "array_lookup_loop w offset 0 current_page = Inr current_page"
| "array_lookup_loop w offset (Suc n) current_page =
     (let pointer = ap_interior_records (aw_pages w current_page) (aw_find_route w offset (Suc n))
      in if vp_offset (volatile_pointer pointer) = 0 then Inl kErrorCodeNotimplemented
         else array_lookup_loop w offset n (resolve_offset (volatile_pointer pointer)))"

definition array_lookup :: "array_world \<Rightarrow> uint64 \<Rightarrow> ErrorCode + (page_ref \<times> nat)" where
  "array_lookup w offset =
     (case array_lookup_loop w offset (unat (aw_levels w - 1)) (aw_root_page w) of
        Inl e \<Rightarrow> Inl e
      | Inr current_page \<Rightarrow> Inr (current_page, aw_find_route w offset 0))"

text \<open>The record address is the leaf page with the index of the record in it.\<close>
definition array_locate_record :: "array_world \<Rightarrow> uint64 \<Rightarrow> ErrorCode + owner_address" where
  "array_locate_record w offset = array_lookup w offset"

definition array_owner_id :: "array_world \<Rightarrow> owner_address \<Rightarrow> XctId" where
  "array_owner_id w a = rec_owner_id (ap_leaf_records (aw_pages w (fst a)) (snd a))"

definition array_payload :: "array_world \<Rightarrow> owner_address \<Rightarrow> nat \<Rightarrow> uint8" where
  "array_payload w a = rec_payload (ap_leaf_records (aw_pages w (fst a)) (snd a))"

text \<open>
  Modelled from the spec: \<^verbatim>\<open>Xct::read_record_primitive\<close> (header \<^verbatim>\<open>xct_inl.hpp\<close> is missing);
  "\<^verbatim>\<open>get_record_primitive\<close> uses the read protocol": read the owner-id, spinning while it is
  locked; copy the payload; re-read the owner-id and repeat if it changed; then append the
  observed owner-id to the read-set.  The result holds the code, the value read and the
  state.
\<close>
partial_function (option) array_spin_while_keylocked ::
  "array_environment \<Rightarrow> owner_address \<Rightarrow> array_world \<Rightarrow> (XctId \<times> array_world) option" where
  "array_spin_while_keylocked env a w =
     (let w1 = array_observe env w in
      if is_keylocked (array_owner_id w1 a) then array_spin_while_keylocked env a w1
      else Some (array_owner_id w1 a, w1))"

declare array_spin_while_keylocked.simps [code]

partial_function (option) read_record_loop ::
  "array_environment \<Rightarrow> owner_address \<Rightarrow> nat \<Rightarrow> XctId \<Rightarrow> array_world
     \<Rightarrow> (XctId \<times> 'a::len word \<times> array_world) option" where
  "read_record_loop env a payload_offset observed w =
     (let w1 = array_observe env w;
          v = read_primitive (array_payload w1 a) payload_offset
      in case array_spin_while_keylocked env a w1 of
           None \<Rightarrow> None
         | Some (observed_again, w2) \<Rightarrow>
             if observed = observed_again then Some (observed, v, w2)
             else read_record_loop env a payload_offset observed_again w2)"

declare read_record_loop.simps [code]

definition array_add_to_read_set ::
  "uint32 \<Rightarrow> owner_address \<Rightarrow> XctId \<Rightarrow> array_world \<Rightarrow> ErrorCode \<times> array_world" where
  "array_add_to_read_set storage a observed w =
     (if max_read_set_size (aw_xct w) \<le> length (read_set (aw_xct w))
      then (kErrorCodeOther 2, w)
      else (kErrorCodeOk,
            w\<lparr>aw_xct := (aw_xct w)\<lparr>read_set := read_set (aw_xct w) @ [(storage, a, observed)]\<rparr>\<rparr>))"

definition array_add_to_write_set ::
  "uint32 \<Rightarrow> owner_address \<Rightarrow> LogEntry \<Rightarrow> array_world \<Rightarrow> ErrorCode \<times> array_world" where
  "array_add_to_write_set storage a log_entry w =
     (if max_write_set_size (aw_xct w) \<le> length (write_set (aw_xct w))
      then (kErrorCodeOther 3, w)
      else (kErrorCodeOk,
            w\<lparr>aw_xct := (aw_xct w)\<lparr>write_set := write_set (aw_xct w) @ [(storage, a, log_entry)]\<rparr>\<rparr>))"

definition read_record_primitive ::
  "array_environment \<Rightarrow> uint32 \<Rightarrow> owner_address \<Rightarrow> nat \<Rightarrow> array_world
     \<Rightarrow> (ErrorCode \<times> 'a::len word option \<times> array_world) option" where
  "read_record_primitive env storage a payload_offset w =
     (case array_spin_while_keylocked env a w of
        None \<Rightarrow> None
      | Some (observed, w1) \<Rightarrow>
          (case read_record_loop env a payload_offset observed w1 of
             None \<Rightarrow> None
           | Some (observed', v, w2) \<Rightarrow>
               (case array_add_to_read_set storage a observed' w2 of
                  (code, w3) \<Rightarrow>
                    Some (code, (if code = kErrorCodeOk then Some v else None), w3))))"

text \<open>
  \<^verbatim>\<open>ArrayStoragePimpl::increment_record\<close>.  The result holds the error code, the state and
  the content of \<^verbatim>\<open>*value\<close> at return.
\<close>
definition array_increment_record ::
  "array_environment \<Rightarrow> uint64 \<Rightarrow> 'a::len word \<Rightarrow> nat \<Rightarrow> array_world
     \<Rightarrow> (ErrorCode \<times> array_world \<times> 'a word) option" where
  "array_increment_record env offset val payload_offset w =
     (case array_locate_record w offset of
        Inl e \<Rightarrow> Some (e, w, val)
      | Inr record \<Rightarrow>
          (case read_record_primitive env (md_id (aw_metadata w)) record payload_offset w of
             None \<Rightarrow> None
           | Some (code, old_value, w1) \<Rightarrow>
               (case old_value of
                  None \<Rightarrow> Some (code, w1, val)
                | Some old_value \<Rightarrow>
                    (let val' = val + old_value;
                         log_entry = ArrayOverwriteLog (md_id (aw_metadata w1)) offset
                            (bytes_of val') payload_offset (LENGTH('a) div 8);
                         w2 = w1\<lparr>aw_log_buffer := aw_log_buffer w1 @ [log_entry]\<rparr>
                     in case array_add_to_write_set (md_id (aw_metadata w2)) record log_entry w2 of
                          (code', w3) \<Rightarrow> Some (code', w3, val')))))"

text \<open>
  Modelled from the spec: applying a staged overwrite at commit, "copy payload bytes from
  the log record" to the record, at the payload offset of the log record.
\<close>
definition apply_overwrite :: "uint8 list \<Rightarrow> nat \<Rightarrow> (nat \<Rightarrow> uint8) \<Rightarrow> (nat \<Rightarrow> uint8)" where
  "apply_overwrite bytes payload_offset mem =
     (\<lambda>n. if payload_offset \<le> n \<and> n < payload_offset + length bytes
          then bytes ! (n - payload_offset) else mem n)"


text \<open>
  The states that the thread sees at its later reads of the shared array pages, and an
  environment in which no other thread writes to the record at an address.
\<close>
definition array_observed_later :: "array_environment \<Rightarrow> array_world \<Rightarrow> array_world \<Rightarrow> bool" where
  "array_observed_later env w w' \<longleftrightarrow> (\<exists>n. w' = (array_observe env ^^ n) w)"

definition record_kept :: "array_environment \<Rightarrow> owner_address \<Rightarrow> bool" where
  "record_kept env a \<longleftrightarrow>
     (\<forall>n h. ap_leaf_records (env n h (fst a)) (snd a) = ap_leaf_records (h (fst a)) (snd a))"


section \<open>Masstree storage: descent\<close>

subsection \<open>Page methods used by the descent\<close>

text \<open>
  Modelled from the spec: \<^verbatim>\<open>within_fences\<close> and \<^verbatim>\<open>within_foster_child\<close> of \<^verbatim>\<open>MasstreePage\<close>.
  "Fence keys (low inclusive, high exclusive; a supremum bit marks the upper sentinel)";
  "while a foster child exists, the parent's key range is split at \<^verbatim>\<open>foster_fence\<close>; readers
  with the right slice must chase the foster pointer."
\<close>
definition within_fences :: "world \<Rightarrow> page_ref \<Rightarrow> KeySlice \<Rightarrow> bool" where
  "within_fences w r kslice =
     (pg_low_fence (w_pages w r) \<le> kslice
      \<and> (pv_is_high_fence_supremum (pg_version (w_pages w r)) \<or> kslice < pg_high_fence (w_pages w r)))"

definition within_foster_child :: "world \<Rightarrow> page_ref \<Rightarrow> KeySlice \<Rightarrow> bool" where
  "within_foster_child w r kslice =
     (has_foster_child (pg_version (w_pages w r)) \<and> pg_foster_fence (w_pages w r) \<le> kslice)"

text \<open>
  Modelled from the spec: \<^verbatim>\<open>find_minipage\<close> and \<^verbatim>\<open>find_pointer\<close> of the intermediate page:
  "choose minipage via its stable version and separator scan; choose pointer".  With \<open>n\<close>
  separators in use, the index is that of the first separator above the slice, and \<open>n\<close> if
  there is none.
\<close>
fun separator_scan :: "(nat \<Rightarrow> KeySlice) \<Rightarrow> KeySlice \<Rightarrow> nat \<Rightarrow> nat \<Rightarrow> nat" where
  "separator_scan seps kslice i 0 = i"
| "separator_scan seps kslice i (Suc n) =
     (if kslice < seps i then i else separator_scan seps kslice (Suc i) n)"

definition find_minipage :: "world \<Rightarrow> page_ref \<Rightarrow> uint8 \<Rightarrow> KeySlice \<Rightarrow> nat" where
  "find_minipage w r key_count kslice =
     separator_scan (pg_separators (w_pages w r)) kslice 0 (unat key_count)"

definition find_pointer :: "world \<Rightarrow> page_ref \<Rightarrow> nat \<Rightarrow> uint8 \<Rightarrow> KeySlice \<Rightarrow> nat" where
  "find_pointer w r minipage_index key_count kslice =
     separator_scan (separators (pg_minipages (w_pages w r) minipage_index)) kslice 0 (unat key_count)"

text \<open>\<^verbatim>\<open>get_stable_version\<close> of a minipage.\<close>
partial_function (option) get_mini_stable_version ::
  "environment \<Rightarrow> page_ref \<Rightarrow> nat \<Rightarrow> world \<Rightarrow> (PageVersion \<times> world) option" where
  "get_mini_stable_version env r i w =
     (let w1 = observe env w in
      if is_locked (mini_version (pg_minipages (w_pages w1 r) i))
      then get_mini_stable_version env r i w1
      else Some (mini_version (pg_minipages (w_pages w1 r) i), w1))"

declare get_mini_stable_version.simps [code]

text \<open>
  The place of a page pointer: a root pointer, or pointer \<open>j\<close> of minipage \<open>i\<close> of an
  intermediate page.
\<close>
datatype pointer_location = RootPointer pointer_address | MiniPagePointer page_ref nat nat

definition read_location :: "world \<Rightarrow> pointer_location \<Rightarrow> DualPagePointer" where
  "read_location w loc =
     (case loc of
        RootPointer a \<Rightarrow> read_pointer w a
      | MiniPagePointer r i j \<Rightarrow> pointers (pg_minipages (w_pages w r) i) j)"

text \<open>
  Modelled from the spec: \<^verbatim>\<open>MasstreeStoragePimpl::follow_page\<close> passes on to
  \<^verbatim>\<open>Thread::follow_page_pointer\<close>, which is missing.  "Dereference the dual pointer; if
  snapshot-only, fault in (out of scope here)"; "when a traversal loads a root pointer whose
  flags mark it swappable, the observed pointer value is added to the pointer-set."  A
  pointer without a volatile page ends the call with \<^verbatim>\<open>kErrorCodeNotimplemented\<close>, as
  the array storage does.  The pointer-set holds root pointers only.
\<close>
definition follow_page ::
  "bool \<Rightarrow> bool \<Rightarrow> pointer_location \<Rightarrow> world \<Rightarrow> (ErrorCode + page_ref) \<times> world" where
  "follow_page for_writes root_in_layer loc w =
     (let pointer = read_location w loc in
      if vp_offset (volatile_pointer pointer) = 0 then (Inl kErrorCodeNotimplemented, w)
      else
        (case loc of
           RootPointer a \<Rightarrow>
             if root_in_layer
             then (case add_to_pointer_set a (volatile_pointer pointer) w of
                     (code, w1) \<Rightarrow>
                       if code \<noteq> kErrorCodeOk then (Inl code, w1)
                       else (Inr (resolve_offset (volatile_pointer pointer)), w1))
             else (Inr (resolve_offset (volatile_pointer pointer)), w)
         | MiniPagePointer r i j \<Rightarrow> (Inr (resolve_offset (volatile_pointer pointer)), w)))"

text \<open>
  \<^verbatim>\<open>MasstreeIntermediatePage::adopt_from_child\<close> is missing from the sources and is a
  parameter of the descent: given the page, the slice, the stable versions and indexes that
  the source passes, and the child, it returns an error code and the new state, or does not
  return.
\<close>
type_synonym adopt_from_child =
  "page_ref \<Rightarrow> KeySlice \<Rightarrow> PageVersion \<Rightarrow> nat \<Rightarrow> PageVersion \<Rightarrow> nat \<Rightarrow> page_ref \<Rightarrow> world
     \<Rightarrow> (ErrorCode \<times> world) option"

text \<open>
  What the descent takes from outside the thread's own state: the other threads and the
  adoption.
\<close>
record descent_context =
  dc_env :: environment
  dc_adopt :: adopt_from_child

subsection \<open>\<^verbatim>\<open>find_border_leaf\<close>, \<^verbatim>\<open>find_border_descend\<close> and \<^verbatim>\<open>find_border\<close>\<close>

text \<open>
  The result is \<open>Inr (border, version)\<close> for \<^verbatim>\<open>kErrorCodeOk\<close> with the two outputs, and
  \<open>Inl code\<close> for an error code.  The \<^verbatim>\<open>continue\<close> of a retry loop and the tail call into the
  child are recursive calls.  Other threads act inside \<^verbatim>\<open>get_stable_version\<close> and before the
  second read of a version after \<^verbatim>\<open>memory_fence_acquire\<close>.
\<close>
partial_function (option) find_border_leaf ::
  "environment \<Rightarrow> page_ref \<Rightarrow> PageVersion \<Rightarrow> KeySlice \<Rightarrow> world
     \<Rightarrow> ((ErrorCode + (page_ref \<times> PageVersion)) \<times> world) option" where
  "find_border_leaf env cur cur_stable kslice w =
     (if \<not> has_foster_child cur_stable \<or> \<not> within_foster_child w cur kslice
      then Some (Inr (cur, cur_stable), w)
      else
        (case get_foster_child w cur of
           None \<Rightarrow> None
         | Some next \<Rightarrow>
             (case get_stable_version env next w of
                None \<Rightarrow> None
              | Some (next_stable, w1) \<Rightarrow>
                  (let w2 = observe env w1;
                       diff = data (get_version w2 cur) XOR data cur_stable
                   in if diff \<le> kPageVersionLockedBit
                      then find_border_leaf env next next_stable kslice w2
                      else
                        (case get_stable_version env cur w2 of
                           None \<Rightarrow> None
                         | Some (cur_new_stable, w3) \<Rightarrow>
                             if get_split_counter cur_new_stable \<noteq> get_split_counter cur_stable
                             then Some (Inl kErrorCodeStrMasstreeRetry, w3)
                             else find_border_leaf env cur cur_new_stable kslice w3)))))"

declare find_border_leaf.simps [code]

partial_function (option) find_border_descend ::
  "descent_context \<Rightarrow> bool \<Rightarrow> page_ref \<Rightarrow> PageVersion \<Rightarrow> KeySlice \<Rightarrow> world
     \<Rightarrow> ((ErrorCode + (page_ref \<times> PageVersion)) \<times> world) option" where
  "find_border_descend ctx for_writes cur cur_stable kslice w =
     (if has_foster_child cur_stable \<and> within_foster_child w cur kslice
      then
        (case get_foster_child w cur of
           None \<Rightarrow> None
         | Some next \<Rightarrow>
             (case get_stable_version (dc_env ctx) next w of
                None \<Rightarrow> None
              | Some (next_stable, w1) \<Rightarrow>
                  (let w2 = observe (dc_env ctx) w1;
                       diff = data (get_version w2 cur) XOR data cur_stable
                   in if diff \<le> kPageVersionLockedBit
                      then find_border_descend ctx for_writes next next_stable kslice w2
                      else
                        (case get_stable_version (dc_env ctx) cur w2 of
                           None \<Rightarrow> None
                         | Some (cur_new_stable, w3) \<Rightarrow>
                             if get_split_counter cur_new_stable \<noteq> get_split_counter cur_stable
                             then Some (Inl kErrorCodeStrMasstreeRetry, w3)
                             else find_border_descend ctx for_writes cur cur_new_stable
                                    kslice w3))))
      else
        (let cur_stable_key_count = get_key_count cur_stable;
             minipage_index = find_minipage w cur cur_stable_key_count kslice
         in case get_mini_stable_version (dc_env ctx) cur minipage_index w of
              None \<Rightarrow> None
            | Some (mini_stable, w1) \<Rightarrow>
                (let mini_stable_key_count = get_key_count mini_stable;
                     pointer_index = find_pointer w1 cur minipage_index mini_stable_key_count kslice
                 in case follow_page for_writes False
                           (MiniPagePointer cur minipage_index pointer_index) w1 of
                      (followed, w2) \<Rightarrow>
                        if isl followed then Some (Inl (projl followed), w2)
                        else
                        (let next = projr followed;
                             next_is_border = is_border w2 next
                         in if has_foster_child (get_version w2 next)
                            then
                              (case dc_adopt ctx cur kslice cur_stable minipage_index mini_stable
                                      pointer_index next w2 of
                                 None \<Rightarrow> None
                               | Some (code, w3) \<Rightarrow>
                                   if code \<noteq> kErrorCodeOk then Some (Inl code, w3)
                                   else
                                     (case get_stable_version (dc_env ctx) cur w3 of
                                        None \<Rightarrow> None
                                      | Some (cur_stable', w4) \<Rightarrow>
                                          find_border_descend ctx for_writes cur cur_stable'
                                            kslice w4))
                            else
                              (case get_stable_version (dc_env ctx) next w2 of
                                 None \<Rightarrow> None
                               | Some (next_stable, w3) \<Rightarrow>
                                   (let w4 = observe (dc_env ctx) w3;
                                        diff = data (get_version w4 cur) XOR data cur_stable;
                                        diff_mini =
                                          data (mini_version (pg_minipages (w_pages w4 cur) minipage_index))
                                            XOR data mini_stable
                                    in if diff \<le> kPageVersionLockedBit
                                          \<and> diff_mini \<le> kPageVersionLockedBit
                                       then
                                         (if next_is_border
                                          then find_border_leaf (dc_env ctx) next next_stable kslice w4
                                          else find_border_descend ctx for_writes next
                                                 next_stable kslice w4)
                                       else
                                         (case get_stable_version (dc_env ctx) cur w4 of
                                            None \<Rightarrow> None
                                          | Some (cur_new_stable, w5) \<Rightarrow>
                                              if get_split_counter cur_new_stable
                                                   \<noteq> get_split_counter cur_stable
                                              then Some (Inl kErrorCodeStrMasstreeRetry, w5)
                                              else find_border_descend ctx for_writes cur
                                                     cur_new_stable kslice w5)))))))"

declare find_border_descend.simps [code]

text \<open>The retry loop of \<^verbatim>\<open>find_border\<close>; \<open>is_border\<close> is read once before the loop.\<close>
partial_function (option) find_border_loop ::
  "descent_context \<Rightarrow> bool \<Rightarrow> page_ref \<Rightarrow> bool \<Rightarrow> KeySlice \<Rightarrow> world
     \<Rightarrow> ((ErrorCode + (page_ref \<times> PageVersion)) \<times> world) option" where
  "find_border_loop ctx for_writes layer_root layer_root_is_border kslice w =
     (case get_stable_version (dc_env ctx) layer_root w of
        None \<Rightarrow> None
      | Some (stable_v, w1) \<Rightarrow>
          (case (if layer_root_is_border
                 then find_border_leaf (dc_env ctx) layer_root stable_v kslice w1
                 else find_border_descend ctx for_writes layer_root stable_v kslice w1) of
             None \<Rightarrow> None
           | Some (subroutine_result, w2) \<Rightarrow>
               if subroutine_result = Inl kErrorCodeStrMasstreeRetry
               then find_border_loop ctx for_writes layer_root layer_root_is_border kslice w2
               else Some (subroutine_result, w2)))"

declare find_border_loop.simps [code]

definition find_border ::
  "descent_context \<Rightarrow> page_ref \<Rightarrow> bool \<Rightarrow> KeySlice \<Rightarrow> world
     \<Rightarrow> ((ErrorCode + (page_ref \<times> PageVersion)) \<times> world) option" where
  "find_border ctx layer_root for_writes kslice w =
     find_border_loop ctx for_writes layer_root (is_border w layer_root) kslice w"


subsection \<open>\<^verbatim>\<open>get_first_root\<close>, \<^verbatim>\<open>follow_layer\<close> and \<^verbatim>\<open>locate_record\<close>\<close>












subsection \<open>What a lookup has met\<close>




text \<open>An environment in which no other thread writes to a slot of a border page.\<close>
definition slot_kept :: "environment \<Rightarrow> page_ref \<Rightarrow> nat \<Rightarrow> bool" where
  "slot_kept env border index \<longleftrightarrow>
     (\<forall>n h. pg_slots (env n h border) index = pg_slots (h border) index)"

section \<open>Example states\<close>

text \<open>Concrete states on which the definitions are run.\<close>

definition blank_version :: PageVersion where
  "blank_version =
     \<lparr>pv_locked = False, pv_inserting = False, pv_splitting = False, pv_has_foster_child = False,
      pv_is_root = False, pv_is_border = False, pv_is_high_fence_supremum = False,
      pv_key_count = 0, pv_insert_counter = 0, pv_split_counter = 0\<rparr>"

definition blank_pointer :: DualPagePointer where
  "blank_pointer = \<lparr>snapshot_pointer = 0, volatile_pointer = null_volatile_pointer\<rparr>"

definition blank_slot :: BorderSlot where
  "blank_slot =
     \<lparr>slot_slice = 0, slot_remaining_key_length = 0, slot_owner_id = set_clean (Epoch 0) 0 0,
      slot_payload_length = 0, slot_record = (\<lambda>n. 0), slot_points_to_layer = False,
      slot_next_layer = blank_pointer\<rparr>"

definition blank_minipage :: MiniPage where
  "blank_minipage =
     \<lparr>mini_version = blank_version, separators = (\<lambda>n. 0), pointers = (\<lambda>n. blank_pointer)\<rparr>"

definition blank_page :: MasstreePage where
  "blank_page =
     \<lparr>pg_storage_id = 0, pg_page_id = null_volatile_pointer, pg_snapshot = False, pg_layer = 0,
      pg_version = blank_version, pg_low_fence = 0, pg_high_fence = 0, pg_foster_fence = 0,
      pg_foster_child = None, pg_slots = (\<lambda>n. blank_slot), pg_minipages = (\<lambda>n. blank_minipage),
      pg_separators = (\<lambda>n. 0)\<rparr>"

definition empty_xct :: Xct where
  "empty_xct =
     \<lparr>read_set = [], write_set = [], pointer_set = [],
      max_read_set_size = 1024, max_write_set_size = 1024, max_pointer_set_size = 1024\<rparr>"

text \<open>An engine on node 0 with four free pages and no storage yet.\<close>
definition empty_world :: world where
  "empty_world =
     \<lparr>w_pages = (\<lambda>r. blank_page), w_first_root_pointer = blank_pointer, w_storage_id = 1,
      w_numa_node = 0, w_thread_id = 3, w_free_pages = [1, 2, 3, 4], w_xct = empty_xct,
      w_log_buffer = [], w_now = 0\<rparr>"

text \<open>The tree right after \<^verbatim>\<open>create\<close>: one empty border page, at offset 1, as root.\<close>
definition fresh_tree :: world where
  "fresh_tree = snd (snd (create False empty_world))"

text \<open>
  The fresh tree after one record of a 12-byte key with a 4-byte payload was reserved in
  the locked root and the root was unlocked again.
\<close>
definition one_reserved_record :: world where
  "one_reserved_record =
     unlock_page (0, 1)
       (reserve_record_new_record_apply (0, 1) 0 7 12 [1, 2, 3, 4] 4
          (update_version (0, 1) lock_version fresh_tree))"

text \<open>The same state with the record's owner-id at the last ordinal of epoch 7, not deleted.\<close>
definition one_record_last_ordinal :: world where
  "one_record_last_ordinal =
     set_owner_id ((0, 1), 0)
       \<lparr>xid_epoch = Epoch 7, xid_ordinal = 0xFFFF, xid_thread_id = 3,
        xid_keylocked = False, xid_deleted = False, xid_moved = False\<rparr>
       one_reserved_record"


text \<open>
  The fresh tree whose root, at offset 1, has split: its foster child is the border page at
  offset 2 and the foster fence is 100.  The transaction has seen the root pointer.
\<close>
definition root_with_foster :: world where
  "root_with_foster =
     update_page (0, 1)
       (\<lambda>p. p\<lparr>pg_foster_child := Some (0, 2), pg_foster_fence := 100,
              pg_version := (pg_version p)\<lparr>pv_has_foster_child := True\<rparr>\<rparr>)
       (update_page (0, 2)
          (initialize_volatile_page True 1 (combine_volatile_page_pointer 0 0 0 2) 0 False 100
             kSupremumSlice True kInfimumSlice None False)
          (fresh_tree\<lparr>w_free_pages := [3, 4],
             w_xct := empty_xct\<lparr>pointer_set :=
               [(FirstRootPointer, combine_volatile_page_pointer 0 kVolatilePointerFlagSwappable 0 1)]\<rparr>\<rparr>))"


text \<open>
  The fresh tree with one live record in slot 0 of the root: a 12-byte key, so four bytes of
  suffix, and a 4-byte payload; byte \<open>n\<close> of the record area is \<open>10 + n\<close>.
\<close>
definition one_live_record :: world where
  "one_live_record =
     update_page (0, 1) (update_slot 0 (\<lambda>s. s\<lparr>slot_record := (\<lambda>n. of_nat (10 + n))\<rparr>))
       one_record_last_ordinal"

text \<open>
  Another thread that commits an overwrite of that record just before the third read of
  shared memory: the ordinal of the owner-id moves on and byte \<open>n\<close> becomes \<open>20 + n\<close>.
\<close>
definition one_concurrent_overwrite :: environment where
  "one_concurrent_overwrite =
     (\<lambda>n h. if n = 2
            then h((0, 1) := update_slot 0
                   (\<lambda>s. s\<lparr>slot_owner_id := (slot_owner_id s)\<lparr>xid_ordinal := 1, xid_epoch := Epoch 8\<rparr>,
                          slot_record := (\<lambda>n. of_nat (20 + n))\<rparr>) (h (0, 1)))
            else h)"

text \<open>The fields of the state that belong to the calling thread or to the storage object.\<close>
definition same_thread_state :: "world \<Rightarrow> world \<Rightarrow> bool" where
  "same_thread_state w w' \<longleftrightarrow>
     w_first_root_pointer w' = w_first_root_pointer w \<and> w_storage_id w' = w_storage_id w
     \<and> w_numa_node w' = w_numa_node w \<and> w_thread_id w' = w_thread_id w
     \<and> w_free_pages w' = w_free_pages w \<and> w_xct w' = w_xct w
     \<and> w_log_buffer w' = w_log_buffer w"


text \<open>
  An array of sixteen 8-byte records in a single leaf page at offset 1; record \<open>i\<close> holds
  the value \<open>i\<close> in its first byte.
\<close>
definition small_array :: array_world where
  "small_array =
     \<lparr>aw_pages = (\<lambda>r. \<lparr>ap_level = 0, ap_range_begin = 0, ap_range_end = 16,
                         ap_leaf_records = (\<lambda>i. \<lparr>rec_owner_id = set_clean (Epoch 1) 0 0,
                                                  rec_payload = (\<lambda>n. if n = 0 then of_nat i else 0)\<rparr>),
                         ap_interior_records = (\<lambda>i. blank_pointer)\<rparr>),
      aw_metadata = \<lparr>md_id = 2, md_name = ''a'', md_payload_size = 8, md_array_size = 16,
                      md_root_page_id = 0\<rparr>,
      aw_root_page = (0, 1), aw_levels = 1,
      aw_find_route = (\<lambda>offset level. if level = 0 then unat offset else 0),
      aw_xct = empty_xct, aw_log_buffer = [], aw_now = 0\<rparr>"


text \<open>
  An array of eight 8-byte records in two levels: the root page at offset 1 points to the
  leaf pages at offsets 2 and 3, of four records each.  The record at array offset \<open>k\<close> holds
  the value \<open>10 + k\<close> in its first byte; the root page holds no records, and what is read
  there as a record has the value 99.
\<close>
definition two_level_array :: array_world where
  "two_level_array =
     \<lparr>aw_pages = (\<lambda>r. \<lparr>ap_level = 1, ap_range_begin = 0, ap_range_end = 8,
                         ap_leaf_records = (\<lambda>i. \<lparr>rec_owner_id = set_clean (Epoch 1) 0 0,
                                                  rec_payload = (\<lambda>n. if n = 0 then 99 else 0)\<rparr>),
                         ap_interior_records = (\<lambda>i. blank_pointer)
                           (0 := \<lparr>snapshot_pointer = 0,
                                   volatile_pointer = combine_volatile_page_pointer 0 0 0 2\<rparr>,
                            1 := \<lparr>snapshot_pointer = 0,
                                   volatile_pointer = combine_volatile_page_pointer 0 0 0 3\<rparr>)\<rparr>)
        ((0, 2) := \<lparr>ap_level = 0, ap_range_begin = 0, ap_range_end = 4,
                     ap_leaf_records = (\<lambda>i. \<lparr>rec_owner_id = set_clean (Epoch 1) 0 0,
                                              rec_payload = (\<lambda>n. if n = 0 then of_nat (10 + i) else 0)\<rparr>),
                     ap_interior_records = (\<lambda>i. blank_pointer)\<rparr>,
         (0, 3) := \<lparr>ap_level = 0, ap_range_begin = 4, ap_range_end = 8,
                     ap_leaf_records = (\<lambda>i. \<lparr>rec_owner_id = set_clean (Epoch 1) 0 0,
                                              rec_payload = (\<lambda>n. if n = 0 then of_nat (14 + i) else 0)\<rparr>),
                     ap_interior_records = (\<lambda>i. blank_pointer)\<rparr>),
      aw_metadata = \<lparr>md_id = 2, md_name = ''a'', md_payload_size = 8, md_array_size = 8,
                      md_root_page_id = 0\<rparr>,
      aw_root_page = (0, 1), aw_levels = 2,
      aw_find_route = (\<lambda>offset level. if level = 0 then unat offset mod 4
                                       else if level = 1 then unat offset div 4 else 0),
      aw_xct = empty_xct, aw_log_buffer = [], aw_now = 0\<rparr>"

text \<open>
  Another thread that commits an overwrite of the record at array offset 5 just before the
  third read of the shared pages: the ordinal of its owner-id moves on and its first byte
  becomes 40.
\<close>
definition array_concurrent_overwrite :: array_environment where
  "array_concurrent_overwrite =
     (\<lambda>n h. if n = 2
            then h((0, 3) := (h (0, 3))
                   \<lparr>ap_leaf_records := (ap_leaf_records (h (0, 3)))
                      (1 := \<lparr>rec_owner_id = set_clean (Epoch 1) 1 0,
                              rec_payload = (\<lambda>n. if n = 0 then 40 else 0)\<rparr>)\<rparr>)
            else h)"

text \<open>
  A tree of two layers.  Slot 0 of the first-layer root, page 1, is a next-layer pointer to
  the border page 2, the root of the second layer, which has split: page 3 is its foster
  child from slice 100 on.  The thread has page 4 in its pool.
\<close>
definition second_layer_root_split :: world where
  "second_layer_root_split =
     update_page (0, 2)
       (initialize_volatile_page True 1 (combine_volatile_page_pointer 0 0 0 2) 1 True
          kInfimumSlice kSupremumSlice True 100 (Some (0, 3)) False)
       (update_page (0, 3)
          (initialize_volatile_page True 1 (combine_volatile_page_pointer 0 0 0 3) 1 False
             100 kSupremumSlice True kInfimumSlice None False)
          (set_next_layer (0, 1) 0
             \<lparr>snapshot_pointer = 0,
              volatile_pointer = combine_volatile_page_pointer 0 kVolatilePointerFlagSwappable 0 2\<rparr>
             (one_reserved_record\<lparr>w_free_pages := [4]\<rparr>)))"

text \<open>
  Other threads that act between the read of the stable version of page 2 and the lock of
  page 2 in \<^verbatim>\<open>grow_root\<close>.  One has grown the second layer: page 9 is its new root, with the
  pointers to the pages 2 and 3 and the separator 100, the next-layer pointer in page 1
  refers to page 9, and the foster link of page 2 is cleared.  Another has then inserted
  into page 2 and split it again: page 10 is the new foster child of page 2, from slice 50
  on, not yet adopted by page 9.
\<close>
definition concurrent_root_growth :: environment where
  "concurrent_root_growth =
     (\<lambda>n h. if n = 0
            then h((0, 9) := update_minipage 0
                     (\<lambda>m. m\<lparr>mini_version := blank_version\<lparr>pv_key_count := 1\<rparr>,
                            separators := (separators m)(0 := 100),
                            pointers := (pointers m)
                              (0 := \<lparr>snapshot_pointer = 0,
                                      volatile_pointer = combine_volatile_page_pointer 0 0 0 2\<rparr>,
                               1 := \<lparr>snapshot_pointer = 0,
                                      volatile_pointer = combine_volatile_page_pointer 0 0 0 3\<rparr>)\<rparr>)
                     (initialize_volatile_page False 1
                        (combine_volatile_page_pointer 0 kVolatilePointerFlagSwappable 1 9) 1 True
                        kInfimumSlice kSupremumSlice True kInfimumSlice None False (h (0, 9))),
                   (0, 1) := update_slot 0
                     (\<lambda>s. s\<lparr>slot_next_layer :=
                            \<lparr>snapshot_pointer = 0,
                             volatile_pointer =
                               combine_volatile_page_pointer 0 kVolatilePointerFlagSwappable 1 9\<rparr>\<rparr>)
                     (h (0, 1)),
                   (0, 2) := (h (0, 2))
                     \<lparr>pg_foster_child := Some (0, 10), pg_foster_fence := 50, pg_high_fence := 100,
                      pg_version := (pg_version (h (0, 2)))
                        \<lparr>pv_has_foster_child := True, pv_is_root := False,
                         pv_is_high_fence_supremum := False, pv_split_counter := 1\<rparr>\<rparr>,
                   (0, 10) := initialize_volatile_page True 1
                     (combine_volatile_page_pointer 0 0 0 10) 1 False
                     50 100 False kInfimumSlice None False (h (0, 10)))
            else h)"


text \<open>
  A tree of one layer with an intermediate root at offset 1 and two border pages at offsets
  2 and 3.  Minipage 0 of the root has one separator, 100; slices below it belong to page 2,
  the others to page 3.
\<close>
definition two_children :: world where
  "two_children =
     update_page (0, 1)
       (\<lambda>p. (initialize_volatile_page False 1 (combine_volatile_page_pointer 0 2 0 1) 0 True
                kInfimumSlice kSupremumSlice True kInfimumSlice None False p)
              \<lparr>pg_minipages := (\<lambda>i. blank_minipage)
                 (0 := \<lparr>mini_version = blank_version\<lparr>pv_key_count := 1\<rparr>,
                         separators = (\<lambda>i. 0)(0 := 100),
                         pointers = (\<lambda>i. blank_pointer)
                           (0 := \<lparr>snapshot_pointer = 0,
                                   volatile_pointer = combine_volatile_page_pointer 0 0 0 2\<rparr>,
                            1 := \<lparr>snapshot_pointer = 0,
                                   volatile_pointer = combine_volatile_page_pointer 0 0 0 3\<rparr>)\<rparr>)\<rparr>)
       (update_page (0, 2)
          (initialize_volatile_page True 1 (combine_volatile_page_pointer 0 0 0 2) 0 False
             kInfimumSlice 100 False kInfimumSlice None False)
          (update_page (0, 3)
             (initialize_volatile_page True 1 (combine_volatile_page_pointer 0 0 0 3) 0 False
                100 kSupremumSlice True kInfimumSlice None False)
             (empty_world\<lparr>w_free_pages := [4],
                w_first_root_pointer := \<lparr>snapshot_pointer = 0,
                   volatile_pointer = combine_volatile_page_pointer 0 2 0 1\<rparr>\<rparr>)))"

text \<open>
  Other threads that, just before the fourth read of shared memory, have split border page 2
  at slice 3 into itself and a new page 5, and have adopted page 5 into minipage 0 of the
  root: the minipage has the separators 3 and 100 and the pointers to the pages 2, 5 and 3,
  and its version has the key count 2 and an insert counter that has moved on.  The version
  of the root page itself is as before.
\<close>
definition concurrent_minipage_change :: descent_context where
  "concurrent_minipage_change =
     \<lparr>dc_env = (\<lambda>n h. if n = 3
                      then h((0, 1) := update_minipage 0
                               (\<lambda>m. m\<lparr>mini_version := (mini_version m)
                                        \<lparr>pv_key_count := 2, pv_insert_counter := 1\<rparr>,
                                      separators := (separators m)(0 := 3, 1 := 100),
                                      pointers := (pointers m)
                                        (1 := \<lparr>snapshot_pointer = 0,
                                                volatile_pointer = combine_volatile_page_pointer 0 0 0 5\<rparr>,
                                         2 := \<lparr>snapshot_pointer = 0,
                                                volatile_pointer = combine_volatile_page_pointer 0 0 0 3\<rparr>)\<rparr>)
                               (h (0, 1)),
                             (0, 2) := (h (0, 2))
                               \<lparr>pg_high_fence := 3,
                                pg_version := (pg_version (h (0, 2)))\<lparr>pv_split_counter := 1\<rparr>\<rparr>,
                             (0, 5) := initialize_volatile_page True 1
                               (combine_volatile_page_pointer 0 0 0 5) 0 False
                               3 100 False kInfimumSlice None False (h (0, 5)))
                      else h),
      dc_adopt = (\<lambda>cur kslice cur_stable i mini_stable j child w. None)\<rparr>"

text \<open>
  The state in which \<^verbatim>\<open>find_border\<close> on that tree calls \<^verbatim>\<open>find_border_descend\<close>, the stable
  version of the root being read, and the state at the hand-over-hand check of the first
  step, which comes after the reads of the stable versions of the minipage and of the
  child and after the acquire fence.
\<close>
definition minipage_change_start :: world where
  "minipage_change_start = observe (dc_env concurrent_minipage_change) two_children"

definition minipage_change_child_read :: world where
  "minipage_change_child_read =
     observe (dc_env concurrent_minipage_change)
       (observe (dc_env concurrent_minipage_change) minipage_change_start)"

definition minipage_change_check :: world where
  "minipage_change_check = observe (dc_env concurrent_minipage_change) minipage_change_child_read"

section \<open>Properties of the array sizing\<close>


lemma unat64_bound: "unat (w :: 64 word) < 18446744073709551616"
  using unsigned_less [of w, where 'a = nat] by simp

lemma idc_unat:
  assumes "r \<noteq> 0"
  shows "\<exists>q. int_div_ceil l r = Some q \<and>
     unat q = (if unat l mod unat r = 0 then unat l div unat r else unat l div unat r + 1)"
proof (cases "l mod r = 0")
  case True
  then have "unat l mod unat r = 0" by (metis unat_mod unat_0)
  with True assms show ?thesis by (simp add: int_div_ceil_def unat_div)
next
  case False
  then have m: "unat l mod unat r \<noteq> 0" by (metis unat_mod unat_eq_0)
  have r0: "unat r \<noteq> 0" using assms by (simp add: unat_eq_0)
  have "unat l \<noteq> 0" using m by (cases "unat l = 0") simp_all
  moreover have "unat r \<noteq> 1" using m by (cases "unat r = 1") simp_all
  ultimately have "unat l div unat r < unat l"
    using r0 by simp
  then have "unat (l div r) + 1 < 18446744073709551616" using unat64_bound [of l] by (simp add: unat_div)
  then have "unat (l div r + 1) = unat (l div r) + 1"
    by (simp add: unat_word_ariths)
  with False m assms show ?thesis by (simp add: int_div_ceil_def unat_div)
qed

lemma ceil_half:
  assumes "2 \<le> (f::nat)" "2 \<le> p" "p \<le> 2 ^ Suc k"
  shows "(if p mod f = 0 then p div f else p div f + 1) \<le> 2 ^ k"
    and "0 < (if p mod f = 0 then p div f else p div f + 1)"
proof -
  have "p div f \<le> p div 2" using assms(1) by (simp add: div_le_mono2)
  moreover have "p div 2 \<le> 2 ^ k" using assms(3) by simp
  moreover have "p mod f \<noteq> 0 \<Longrightarrow> p div f < 2 ^ k"
  proof -
    assume m: "p mod f \<noteq> 0"
    show ?thesis
    proof (cases "f = 2")
      case True
      with m have "p mod 2 = 1" by simp
      then have "p \<noteq> 2 ^ Suc k" by auto
      with assms(3) have "p < 2 * 2 ^ k" by simp
      with True show ?thesis by simp
    next
      case False
      with assms(1) have "3 \<le> f" by simp
      then have "p div f \<le> p div 3" by (simp add: div_le_mono2)
      also have "p div 3 < 2 ^ k" using assms(2,3) by simp
      finally show ?thesis .
    qed
  qed
  ultimately show "(if p mod f = 0 then p div f else p div f + 1) \<le> 2 ^ k" by auto
  show "0 < (if p mod f = 0 then p div f else p div f + 1)"
  proof (cases "p mod f = 0")
    case True
    then have "p div f \<noteq> 0" using assms(1,2) by (cases "p div f = 0") (auto simp: div_eq_0_iff)
    with True show ?thesis by simp
  qed simp
qed

lemma pages_loop_last: "pages_loop F pages = Some r \<Longrightarrow> last r = 1"
  by (rule pages_loop.raw_induct [where P = "\<lambda>F pages r. last r = 1"])
     (auto split: if_splits option.splits)

lemma loops_agree:
  assumes "2 \<le> unat F"
  shows "p \<noteq> 0 \<Longrightarrow> unat p \<le> 2 ^ k \<Longrightarrow>
    \<exists>rest. length rest \<le> k \<and> pages_loop F (acc @ [p]) = Some (acc @ p # rest)
       \<and> levels_loop F p l = Some (l + of_nat (length rest))"
proof (induction k arbitrary: p acc l)
  case 0
  then have "unat p = 1" by (simp add: unat_eq_0 le_Suc_eq)
  then have "p = 1" by (metis unat_1 word_unat_eq_iff)
  then show ?case by (simp add: pages_loop.simps levels_loop.simps)
next
  case (Suc k)
  show ?case
  proof (cases "p = 1")
    case True
    then show ?thesis by (simp add: pages_loop.simps levels_loop.simps)
  next
    case False
    with Suc.prems(1) have p2: "2 \<le> unat p"
      by (metis One_nat_def Suc_1 Suc_leI le_neq_implies_less unat_1 unat_eq_0 word_unat_eq_iff not_less_eq_eq le0 nat_less_le)
    from assms have "F \<noteq> 0" by auto
    from idc_unat [OF this, of p] obtain q where
      q: "int_div_ceil p F = Some q"
         "unat q = (if unat p mod unat F = 0 then unat p div unat F else unat p div unat F + 1)"
      by blast
    from ceil_half [OF assms p2 Suc.prems(2)] q(2)
    have "unat q \<le> 2 ^ k" "0 < unat q" by simp_all
    then have q0: "q \<noteq> 0" by auto
    from Suc.IH [OF q0 \<open>unat q \<le> 2 ^ k\<close>, of "acc @ [p]" "l + 1"]
    obtain rest where r: "length rest \<le> k"
      "pages_loop F ((acc @ [p]) @ [q]) = Some ((acc @ [p]) @ q # rest)"
      "levels_loop F q (l + 1) = Some (l + 1 + of_nat (length rest))"
      by blast
    have "pages_loop F (acc @ [p]) = Some (acc @ p # (q # rest))"
      using False q(1) r(2) by (subst pages_loop.simps) simp
    moreover have "levels_loop F p l = Some (l + of_nat (length (q # rest)))"
      using False q(1) r(3) by (subst levels_loop.simps) (simp add: add.assoc)
    ultimately show ?thesis using r(1) by (intro exI [of _ "q # rest"]) simp
  qed
qed


text \<open>
  Claim C6.  For every array size of at least one and every payload size, the number of
  levels computed by \<^verbatim>\<open>calculate_levels\<close> equals the number of per-level entries of the
  vector returned by \<^verbatim>\<open>calculate_required_pages\<close> for the same metadata.  Both derive the
  records per leaf page as \<^verbatim>\<open>kDataSize / (align8(payload) + kRecordOverhead)\<close> and divide
  the page count by the interior fanout, rounding up, until one page remains.  Where that
  quotient is zero, both trap in the same division; otherwise both return, and the
  \<^verbatim>\<open>uint8_t\<close> counter of \<^verbatim>\<open>calculate_levels\<close> does not wrap.  The fanout is a parameter,
  assumed to be at least two and to fit into 64 bits.
\<close>
theorem calculate_levels_matches_required_pages:
  assumes "2 \<le> kInteriorFanout c" "kInteriorFanout c < 2 ^ 64" "md_array_size md \<noteq> 0"
  shows "map_option unat (calculate_levels c md) =
           map_option length (calculate_required_pages c (md_array_size md) (md_payload_size md))
         \<and> (\<forall>rpp. records_per_page c (align8 (md_payload_size md)) = Some rpp \<and> rpp \<noteq> 0 \<longrightarrow>
               (\<exists>levels pages. calculate_levels c md = Some levels
                  \<and> calculate_required_pages c (md_array_size md) (md_payload_size md) = Some pages
                  \<and> unat levels = length pages \<and> last pages = 1))"
proof (cases "records_per_page c (align8 (md_payload_size md))")
  case None
  then show ?thesis by (simp add: calculate_levels_def calculate_required_pages_def)
next
  case (Some rpp)
  show ?thesis
  proof (cases "rpp = 0")
    case True
    with Some show ?thesis
      by (simp add: calculate_levels_def calculate_required_pages_def int_div_ceil_def)
  next
    case False
    let ?F = "of_nat (kInteriorFanout c) :: uint64"
    have F: "2 \<le> unat ?F" using assms(1,2) by (simp add: unat_of_nat)
    from idc_unat [OF False, of "md_array_size md"] obtain leaf where
      leaf: "int_div_ceil (md_array_size md) rpp = Some leaf"
        "unat leaf = (if unat (md_array_size md) mod unat rpp = 0 then unat (md_array_size md) div unat rpp
                      else unat (md_array_size md) div unat rpp + 1)"
      by blast
    have a0: "0 < unat (md_array_size md)" using assms(3) by (simp add: unat_gt_0)
    have r0: "0 < unat rpp" using False by (simp add: unat_gt_0)
    have "unat leaf \<noteq> 0"
    proof (cases "unat (md_array_size md) mod unat rpp = 0")
      case True
      then have "unat rpp \<le> unat (md_array_size md)" using a0 r0 by (auto dest: dvd_imp_le)
      then have "0 < unat (md_array_size md) div unat rpp" using r0 by (simp add: div_greater_zero_iff)
      with True leaf(2) show ?thesis by simp
    next
      case False
      with leaf(2) show ?thesis by simp
    qed
    then have leaf0: "leaf \<noteq> 0" by auto
    have "unat leaf \<le> 2 ^ 64" using unat64_bound [of leaf] by simp
    from loops_agree [OF F leaf0 this, of "[]" 1] obtain rest where
      rest: "length rest \<le> 64" "pages_loop ?F [leaf] = Some (leaf # rest)"
        "levels_loop ?F leaf 1 = Some (1 + of_nat (length rest))"
      by auto
    have u: "unat (1 + of_nat (length rest) :: uint8) = Suc (length rest)"
      using rest(1) by (simp add: unat_word_ariths unat_of_nat)
    have l1: "last (leaf # rest) = 1"
      using rest(2) pages_loop_last by blast
    show ?thesis
      using Some leaf(1) rest(2,3) u l1 False
      by (simp add: calculate_levels_def calculate_required_pages_def)
  qed
qed

text \<open>The theorem at a page body of 4048 bytes, 16 bytes of overhead and fanout 253.\<close>
theorem calculate_levels_matches_required_pages_witness:
  "calculate_levels foedus_array_constants
     \<lparr>md_id = 1, md_name = ''a'', md_payload_size = 8, md_array_size = 100000, md_root_page_id = 0\<rparr>
     = Some 3
   \<and> calculate_required_pages foedus_array_constants 100000 8 = Some [596, 3, 1]"
proof -
  let ?md = "\<lparr>md_id = 1, md_name = ''a'', md_payload_size = 8, md_array_size = 100000, md_root_page_id = 0\<rparr>"
  have h: "2 \<le> kInteriorFanout foedus_array_constants"
    "kInteriorFanout foedus_array_constants < 2 ^ 64" "md_array_size ?md \<noteq> 0"
    by (simp_all add: foedus_array_constants_def)
  have e: "calculate_required_pages foedus_array_constants 100000 8 = Some [596, 3, 1]"
    by code_simp
  from calculate_levels_matches_required_pages [OF h] e
  obtain l where l: "calculate_levels foedus_array_constants ?md = Some l" "unat l = 3"
    by auto
  have "unat (3 :: uint8) = 3" by simp
  with l(2) have "l = 3" by (simp add: word_unat_eq_iff)
  with l e show ?thesis by simp
qed

section \<open>Properties of the Masstree structural operations\<close>


lemma w_pages_update_page:
  "w_pages (update_page r f w) = (w_pages w)(r := f (w_pages w r))"
  by (simp add: update_page_def)

lemma page_of_update_page [simp]:
  "w_pages (update_page r f w) r' = (if r' = r then f (w_pages w r) else w_pages w r')"
  by (simp add: update_page_def)

lemma update_page_fields [simp]:
  "w_first_root_pointer (update_page r f w) = w_first_root_pointer w"
  "w_storage_id (update_page r f w) = w_storage_id w"
  "w_numa_node (update_page r f w) = w_numa_node w"
  "w_thread_id (update_page r f w) = w_thread_id w"
  "w_free_pages (update_page r f w) = w_free_pages w"
  "w_xct (update_page r f w) = w_xct w"
  "w_log_buffer (update_page r f w) = w_log_buffer w"
  "w_now (update_page r f w) = w_now w"
  by (simp_all add: update_page_def)

lemma observe_fields [simp]:
  "w_first_root_pointer (observe env w) = w_first_root_pointer w"
  "w_storage_id (observe env w) = w_storage_id w"
  "w_numa_node (observe env w) = w_numa_node w"
  "w_thread_id (observe env w) = w_thread_id w"
  "w_free_pages (observe env w) = w_free_pages w"
  "w_xct (observe env w) = w_xct w"
  "w_log_buffer (observe env w) = w_log_buffer w"
  by (simp_all add: observe_def)

lemma get_owner_id_set_owner_id [simp]:
  "get_owner_id (set_owner_id a x w) a = x"
  by (simp add: get_owner_id_def set_owner_id_def update_slot_def)

lemma set_owner_id_fields [simp]:
  "w_first_root_pointer (set_owner_id a x w) = w_first_root_pointer w"
  "w_storage_id (set_owner_id a x w) = w_storage_id w"
  "w_numa_node (set_owner_id a x w) = w_numa_node w"
  "w_thread_id (set_owner_id a x w) = w_thread_id w"
  "w_free_pages (set_owner_id a x w) = w_free_pages w"
  "w_xct (set_owner_id a x w) = w_xct w"
  "w_log_buffer (set_owner_id a x w) = w_log_buffer w"
  by (simp_all add: set_owner_id_def)

lemma keylock_unconditional_frame:
  assumes "keylock_unconditional env a w = Some w'"
  shows "w_free_pages w' = w_free_pages w \<and> w_numa_node w' = w_numa_node w
       \<and> w_storage_id w' = w_storage_id w \<and> w_thread_id w' = w_thread_id w
       \<and> w_xct w' = w_xct w \<and> w_log_buffer w' = w_log_buffer w
       \<and> w_first_root_pointer w' = w_first_root_pointer w
       \<and> is_keylocked (get_owner_id w' a)"
  by (rule keylock_unconditional.raw_induct
       [OF _ assms, where P = "\<lambda>env a w w'. w_free_pages w' = w_free_pages w \<and> w_numa_node w' = w_numa_node w
       \<and> w_storage_id w' = w_storage_id w \<and> w_thread_id w' = w_thread_id w
       \<and> w_xct w' = w_xct w \<and> w_log_buffer w' = w_log_buffer w
       \<and> w_first_root_pointer w' = w_first_root_pointer w
       \<and> is_keylocked (get_owner_id w' a)"])
     (auto simp: Let_def is_keylocked_def split: if_splits)

lemma next_layer_owner_id_props:
  "\<not> is_keylocked (next_layer_owner_id x)"
  "\<not> is_deleted (next_layer_owner_id x)"
  "get_ordinal x \<noteq> 0xFFFF \<Longrightarrow> get_ordinal (next_layer_owner_id x) = get_ordinal x + 1"
  "get_ordinal x \<noteq> 0xFFFF \<Longrightarrow> get_epoch (next_layer_owner_id x) = get_epoch x"
  "get_ordinal x = 0xFFFF \<Longrightarrow> get_ordinal (next_layer_owner_id x) = 0"
  "get_ordinal x = 0xFFFF \<Longrightarrow> get_epoch (next_layer_owner_id x) = one_more (get_epoch x)"
  "xid_thread_id (next_layer_owner_id x) = xid_thread_id x"
  "xid_moved (next_layer_owner_id x) = xid_moved x"
  by (simp_all add: next_layer_owner_id_def Let_def is_keylocked_def is_deleted_def get_ordinal_def
        get_epoch_def release_keylock_def set_epoch_def set_ordinal_def set_notdeleted_def)

lemma is_deleted_release_keylock: "is_deleted (release_keylock x) = is_deleted x"
  by (simp add: is_deleted_def release_keylock_def)

lemma create_next_layer_install:
  assumes grab: "grab_free_volatile_page w = (offset, w1)" "offset \<noteq> 0"
      and lock: "keylock_unconditional env (parent, i) w1 = Some w2"
      and fresh: "\<not> does_point_to_layer w2 parent i"
      and distinct: "resolve_local w1 offset \<noteq> parent"
  shows "\<exists>w'. create_next_layer env parent i w = Some (kErrorCodeOk, w')
     \<and> get_owner_id w' (parent, i) = next_layer_owner_id (get_owner_id w2 (parent, i))
     \<and> does_point_to_layer w' parent i
     \<and> get_next_layer w' parent i = \<lparr>snapshot_pointer = 0,
           volatile_pointer = combine_volatile_page_pointer (w_numa_node w) 0 0 offset\<rparr>
     \<and> slot_owner_id (pg_slots (w_pages w' (resolve_local w1 offset)) 0)
          = release_keylock (get_owner_id w2 (parent, i))
     \<and> get_key_count (get_version w' (resolve_local w1 offset)) = 1
     \<and> w_free_pages w' = tl (w_free_pages w)"
proof -
  have n: "w_numa_node w2 = w_numa_node w1" "w_free_pages w2 = w_free_pages w1"
    using keylock_unconditional_frame [OF lock] by simp_all
  have n1: "w_numa_node w1 = w_numa_node w" "w_free_pages w1 = tl (w_free_pages w)"
    using grab by (auto simp: grab_free_volatile_page_def split: list.splits)
  have d: "(w_numa_node w1, offset) \<noteq> parent" "parent \<noteq> (w_numa_node w1, offset)"
    using distinct by (auto simp: resolve_local_def)
  show ?thesis
    using grab lock fresh d n n1
    by (simp add: create_next_layer_def Let_def resolve_local_def unlock_page_def update_version_def
          set_next_layer_def copy_initial_record_def get_owner_id_def set_owner_id_def
          update_slot_def does_point_to_layer_def get_next_layer_def get_version_def
          get_key_count_def set_key_count_def unlock_version_def initialize_volatile_page_def)
qed


lemma keylock_unconditional_free:
  "\<not> is_keylocked (get_owner_id (observe env w) a) \<Longrightarrow>
   keylock_unconditional env a w =
     Some (set_owner_id a ((get_owner_id (observe env w) a)\<lparr>xid_keylocked := True\<rparr>) (observe env w))"
  by (subst keylock_unconditional.simps) (simp add: Let_def)

lemma create_next_layer_already:
  assumes grab: "grab_free_volatile_page w = (offset, w1)" "offset \<noteq> 0"
      and lock: "keylock_unconditional env (parent, i) w1 = Some w2"
      and already: "does_point_to_layer w2 parent i"
  shows "create_next_layer env parent i w =
           Some (kErrorCodeOk,
                 set_owner_id (parent, i) (release_keylock (get_owner_id w2 (parent, i)))
                   (release_free_volatile_page offset w2))
         \<and> w_free_pages (release_free_volatile_page offset w2) = w_free_pages w"
proof -
  have "w_free_pages w2 = w_free_pages w1"
    using keylock_unconditional_frame [OF lock] by simp
  moreover have "w_free_pages w = offset # w_free_pages w1"
    using grab by (auto simp: grab_free_volatile_page_def split: list.splits)
  ultimately show ?thesis
    using grab lock already
    by (simp add: create_next_layer_def Let_def release_free_volatile_page_def
          get_owner_id_def)
qed

text \<open>
  Claim C5.  When \<^verbatim>\<open>create_next_layer\<close> installs a new layer root under a parent slot, it
  releases the slot's owner-id with the ordinal incremented by exactly one when the previous
  ordinal is less than \<^verbatim>\<open>0xFFFF\<close> (the epoch is kept), and otherwise with ordinal 0 and the
  epoch advanced by one.  The previous owner-id is the one held under the key lock; the
  page taken from the pool is not the parent page.
\<close>
theorem create_next_layer_releases_with_next_ordinal:
  assumes "grab_free_volatile_page w = (offset, w1)" "offset \<noteq> 0"
      and "keylock_unconditional env (parent, i) w1 = Some w2"
      and "\<not> does_point_to_layer w2 parent i"
      and "resolve_local w1 offset \<noteq> parent"
  shows "\<exists>w'. create_next_layer env parent i w = Some (kErrorCodeOk, w')
     \<and> \<not> is_keylocked (get_owner_id w' (parent, i))
     \<and> (if unat (get_ordinal (get_owner_id w2 (parent, i))) < 0xFFFF
        then unat (get_ordinal (get_owner_id w' (parent, i)))
               = unat (get_ordinal (get_owner_id w2 (parent, i))) + 1
           \<and> get_epoch (get_owner_id w' (parent, i)) = get_epoch (get_owner_id w2 (parent, i))
        else get_ordinal (get_owner_id w' (parent, i)) = 0
           \<and> get_epoch (get_owner_id w' (parent, i))
               = one_more (get_epoch (get_owner_id w2 (parent, i))))"
proof -
  let ?old = "get_owner_id w2 (parent, i)"
  from create_next_layer_install [OF assms] obtain w' where
    w': "create_next_layer env parent i w = Some (kErrorCodeOk, w')"
        "get_owner_id w' (parent, i) = next_layer_owner_id ?old"
    by blast
  have lt: "unat (get_ordinal ?old) < 0xFFFF \<longleftrightarrow> get_ordinal ?old \<noteq> 0xFFFF"
    using unsigned_less [of "get_ordinal ?old", where 'a = nat]
    by (auto simp: word_unat_eq_iff)
  show ?thesis
  proof (cases "get_ordinal ?old = 0xFFFF")
    case True
    with w' lt show ?thesis
      by (auto simp: next_layer_owner_id_props)
  next
    case False
    then have "unat (get_ordinal ?old + 1) = unat (get_ordinal ?old) + 1"
      using lt by (simp add: unat_word_ariths)
    with False w' lt show ?thesis
      by (auto simp: next_layer_owner_id_props)
  qed
qed

text \<open>
  Claim C10.  After \<^verbatim>\<open>create_next_layer\<close> returns OK having itself installed the new layer,
  the parent slot is a next-layer pointer to the new root and its owner-id has the deleted
  bit and the key lock cleared; the new root holds one entry, the copy of the record, which
  is deleted exactly if the original was.  When the slot was already a next-layer pointer,
  the page goes back to the pool and nothing but the key lock of the slot changes.
\<close>
theorem create_next_layer_pointer_slot_not_deleted:
  assumes "grab_free_volatile_page w = (offset, w1)" "offset \<noteq> 0"
      and "keylock_unconditional env (parent, i) w1 = Some w2"
      and "resolve_local w1 offset \<noteq> parent"
  shows "\<exists>w'. create_next_layer env parent i w = Some (kErrorCodeOk, w')
     \<and> (if does_point_to_layer w2 parent i
        then w_free_pages w' = w_free_pages w
           \<and> w_pages w' = (w_pages w2)(parent := update_slot i
                 (\<lambda>s. s\<lparr>slot_owner_id := release_keylock (slot_owner_id s)\<rparr>) (w_pages w2 parent))
        else does_point_to_layer w' parent i
           \<and> \<not> is_deleted (get_owner_id w' (parent, i))
           \<and> \<not> is_keylocked (get_owner_id w' (parent, i))
           \<and> get_key_count (get_version w' (resolve_local w1 offset)) = 1
           \<and> is_deleted (slot_owner_id (pg_slots (w_pages w' (resolve_local w1 offset)) 0))
               = is_deleted (get_owner_id w2 (parent, i))
           \<and> resolve_offset (volatile_pointer (get_next_layer w' parent i)) = resolve_local w1 offset)"
proof (cases "does_point_to_layer w2 parent i")
  case True
  from create_next_layer_already [OF assms(1,2,3) True] True show ?thesis
    by (simp add: set_owner_id_def release_free_volatile_page_def get_owner_id_def update_slot_def
          w_pages_update_page)
next
  case False
  have n1: "w_numa_node w1 = w_numa_node w"
    using assms(1) by (auto simp: grab_free_volatile_page_def split: list.splits)
  from create_next_layer_install [OF assms(1,2,3) False assms(4)] False n1 show ?thesis
    by (auto simp: next_layer_owner_id_props is_deleted_release_keylock resolve_offset_def
          combine_volatile_page_pointer_def resolve_local_def)
qed



lemmas example_defs = one_record_last_ordinal_def one_reserved_record_def fresh_tree_def create_def
  empty_world_def empty_xct_def blank_page_def blank_minipage_def blank_slot_def blank_pointer_def
  blank_version_def grab_free_volatile_page_def resolve_local_def update_version_def
  reserve_record_new_record_apply_def reserve_record_space_def unlock_page_def
  initialize_volatile_page_def set_clean_def set_deleted_def update_slot_def
  set_inserting_and_increment_key_count_def lock_version_def unlock_version_def
  kEpochInitialCurrent_def set_owner_id_def get_owner_id_def observe_def no_interference_def
  combine_volatile_page_pointer_def is_keylocked_def does_point_to_layer_def

text \<open>The theorem on a record at the last ordinal of epoch 7: the slot is released in epoch 8.\<close>
theorem create_next_layer_releases_with_next_ordinal_witness:
  "\<exists>w'. create_next_layer no_interference (0, 1) 0 one_record_last_ordinal = Some (kErrorCodeOk, w')
     \<and> get_ordinal (get_owner_id w' ((0, 1), 0)) = 0
     \<and> get_epoch (get_owner_id w' ((0, 1), 0)) = Epoch 8"
proof -
  let ?w1 = "snd (grab_free_volatile_page one_record_last_ordinal)"
  let ?w2 = "set_owner_id ((0, 1), 0)
      ((get_owner_id (observe no_interference ?w1) ((0, 1), 0))\<lparr>xid_keylocked := True\<rparr>)
      (observe no_interference ?w1)"
  have g: "grab_free_volatile_page one_record_last_ordinal = (2, ?w1)" "(2 :: uint32) \<noteq> 0"
    by (simp_all add: example_defs)
  have "\<not> is_keylocked (get_owner_id (observe no_interference ?w1) ((0, 1), 0))"
    by (simp add: example_defs)
  then have l: "keylock_unconditional no_interference ((0, 1), 0) ?w1 = Some ?w2"
    by (rule keylock_unconditional_free)
  have f: "\<not> does_point_to_layer ?w2 (0, 1) 0"
    by (simp add: example_defs)
  have d: "resolve_local ?w1 2 \<noteq> (0, 1)"
    by (simp add: example_defs)
  have o: "get_owner_id ?w2 ((0, 1), 0) =
      \<lparr>xid_epoch = Epoch 7, xid_ordinal = 0xFFFF, xid_thread_id = 3,
        xid_keylocked = True, xid_deleted = False, xid_moved = False\<rparr>"
    by (simp add: example_defs)
  from create_next_layer_releases_with_next_ordinal [OF g l f d]
  show ?thesis
    unfolding o by (auto simp: get_ordinal_def get_epoch_def one_more_def)
qed

text \<open>The theorem on a reserved, still deleted record of the fresh tree.\<close>
theorem create_next_layer_pointer_slot_not_deleted_witness:
  "\<exists>w'. create_next_layer no_interference (0, 1) 0 one_reserved_record = Some (kErrorCodeOk, w')
     \<and> does_point_to_layer w' (0, 1) 0
     \<and> \<not> is_deleted (get_owner_id w' ((0, 1), 0))
     \<and> is_deleted (slot_owner_id (pg_slots (w_pages w' (0, 2)) 0))
     \<and> resolve_offset (volatile_pointer (get_next_layer w' (0, 1) 0)) = (0, 2)"
proof -
  let ?w1 = "snd (grab_free_volatile_page one_reserved_record)"
  let ?w2 = "set_owner_id ((0, 1), 0)
      ((get_owner_id (observe no_interference ?w1) ((0, 1), 0))\<lparr>xid_keylocked := True\<rparr>)
      (observe no_interference ?w1)"
  have g: "grab_free_volatile_page one_reserved_record = (2, ?w1)" "(2 :: uint32) \<noteq> 0"
    by (simp_all add: example_defs)
  have "\<not> is_keylocked (get_owner_id (observe no_interference ?w1) ((0, 1), 0))"
    by (simp add: example_defs)
  then have l: "keylock_unconditional no_interference ((0, 1), 0) ?w1 = Some ?w2"
    by (rule keylock_unconditional_free)
  have f: "\<not> does_point_to_layer ?w2 (0, 1) 0"
    by (simp add: example_defs)
  have d: "resolve_local ?w1 2 \<noteq> (0, 1)" and r: "resolve_local ?w1 2 = (0, 2)"
    by (simp_all add: example_defs)
  have o: "is_deleted (get_owner_id ?w2 ((0, 1), 0))"
    by (simp add: example_defs is_deleted_def)
  from create_next_layer_pointer_slot_not_deleted [OF g l d] f o r
  show ?thesis by auto
qed



lemma unat_get_key_count: "unat (get_key_count v) = unat (pv_key_count v)"
proof -
  have "unat (pv_key_count v) < 2 ^ 7"
    using unsigned_less [of "pv_key_count v", where 'a = nat] by simp
  then have "unat (pv_key_count v) < 2 ^ 8" by simp
  then show ?thesis
    by (simp add: get_key_count_def unsigned_ucast_eq take_bit_nat_eq_self)
qed

text \<open>
  Claim C4.  Every new record slot created by \<^verbatim>\<open>reserve_record_new_record_apply\<close> is born
  logically deleted: the owner-id stored in the slot has the deleted bit set.  The operation
  sets the inserting marker of the page version and increments its key count by exactly
  one (in the 7-bit field; as a number, whenever the field is not at its maximum), and it
  leaves the page lock as it found it.
\<close>
theorem reserve_record_new_record_apply_born_deleted:
  "is_deleted (get_owner_id
       (reserve_record_new_record_apply target i kslice remaining suffix payload_count w) (target, i))
   \<and> pv_inserting (get_version
       (reserve_record_new_record_apply target i kslice remaining suffix payload_count w) target)
   \<and> pv_key_count (get_version
       (reserve_record_new_record_apply target i kslice remaining suffix payload_count w) target)
        = pv_key_count (get_version w target) + 1
   \<and> (unat (get_key_count (get_version w target)) < 127 \<longrightarrow>
        unat (get_key_count (get_version
          (reserve_record_new_record_apply target i kslice remaining suffix payload_count w) target))
        = unat (get_key_count (get_version w target)) + 1)
   \<and> is_locked (get_version
       (reserve_record_new_record_apply target i kslice remaining suffix payload_count w) target)
        = is_locked (get_version w target)
   \<and> \<not> does_point_to_layer
       (reserve_record_new_record_apply target i kslice remaining suffix payload_count w) target i"
proof -
  have k: "unat (pv_key_count (get_version w target)) < 127 \<Longrightarrow>
     unat (pv_key_count (get_version w target) + 1) = unat (pv_key_count (get_version w target)) + 1"
    by (simp add: unat_word_ariths)
  show ?thesis
    using k
    by (simp add: reserve_record_new_record_apply_def reserve_record_space_def Let_def
          get_owner_id_def get_version_def update_version_def update_slot_def is_deleted_def
          set_deleted_def set_clean_def set_inserting_and_increment_key_count_def is_locked_def
          does_point_to_layer_def unat_get_key_count)
qed

text \<open>The theorem on the locked root of the fresh tree: the key count goes from 0 to 1.\<close>
theorem reserve_record_new_record_apply_born_deleted_witness:
  "is_deleted (get_owner_id one_reserved_record ((0, 1), 0))
   \<and> unat (get_key_count (get_version fresh_tree (0, 1))) = 0
   \<and> unat (get_key_count (get_version one_reserved_record (0, 1))) = 1"
proof -
  let ?w = "update_version (0, 1) lock_version fresh_tree"
  have h: "unat (get_key_count (get_version ?w (0, 1))) < 127"
    by (simp add: example_defs get_version_def get_key_count_def)
  have e: "unat (get_key_count (get_version ?w (0, 1))) = 0"
    "unat (get_key_count (get_version fresh_tree (0, 1))) = 0"
    by (simp_all add: example_defs get_version_def get_key_count_def)
  have u: "get_owner_id (unlock_page (0, 1) x) a = get_owner_id x a"
     "get_key_count (get_version (unlock_page (0, 1) x) (0, 1)) = get_key_count (get_version x (0, 1))" for x a
    by (simp_all add: unlock_page_def update_version_def get_owner_id_def get_version_def
          get_key_count_def unlock_version_def)
  from reserve_record_new_record_apply_born_deleted [of "(0, 1)" 0 7 12 "[1, 2, 3, 4]" 4 ?w] h e
  show ?thesis
    by (simp add: one_reserved_record_def u)
qed



lemma lock_page_free:
  "\<not> is_locked (get_version (observe env w) r) \<Longrightarrow>
   lock_page env r w = Some (update_version r lock_version (observe env w))"
  by (subst lock_page.simps) (simp add: Let_def)

text \<open>What the operations of \<^verbatim>\<open>grow_root\<close> do to one page, to the root pointers and to the sets.\<close>

lemma update_version_fields [simp]:
  "w_pages (update_version r f w) r' =
     (if r' = r then (w_pages w r)\<lparr>pg_version := f (pg_version (w_pages w r))\<rparr> else w_pages w r')"
  "w_first_root_pointer (update_version r f w) = w_first_root_pointer w"
  "w_free_pages (update_version r f w) = w_free_pages w"
  "w_numa_node (update_version r f w) = w_numa_node w"
  "w_storage_id (update_version r f w) = w_storage_id w"
  "w_xct (update_version r f w) = w_xct w"
  by (simp_all add: update_version_def)

lemma unlock_page_fields [simp]:
  "w_pages (unlock_page r w) r' =
     (if r' = r then (w_pages w r)\<lparr>pg_version := unlock_version (pg_version (w_pages w r))\<rparr>
      else w_pages w r')"
  "w_first_root_pointer (unlock_page r w) = w_first_root_pointer w"
  "w_free_pages (unlock_page r w) = w_free_pages w"
  "w_xct (unlock_page r w) = w_xct w"
  by (simp_all add: unlock_page_def)

lemma clear_foster_fields [simp]:
  "w_pages (clear_foster r w) r' =
     (if r' = r then (w_pages w r)\<lparr>pg_foster_child := None,
        pg_version := (pg_version (w_pages w r))\<lparr>pv_has_foster_child := False\<rparr>\<rparr>
      else w_pages w r')"
  "w_first_root_pointer (clear_foster r w) = w_first_root_pointer w"
  "w_free_pages (clear_foster r w) = w_free_pages w"
  "w_xct (clear_foster r w) = w_xct w"
  by (simp_all add: clear_foster_def)

lemma overwrite_to_pointer_set_fields [simp]:
  "w_pages (overwrite_to_pointer_set a p w) = w_pages w"
  "w_first_root_pointer (overwrite_to_pointer_set a p w) = w_first_root_pointer w"
  "w_free_pages (overwrite_to_pointer_set a p w) = w_free_pages w"
  "pointer_set (w_xct (overwrite_to_pointer_set a p w)) =
     map (\<lambda>e. if fst e = a then (a, p) else e) (pointer_set (w_xct w))"
  by (simp_all add: overwrite_to_pointer_set_def)

lemma write_pointer_fields [simp]:
  "w_free_pages (write_pointer a p w) = w_free_pages w"
  "w_xct (write_pointer a p w) = w_xct w"
  "pg_minipages (w_pages (write_pointer a p w) r) = pg_minipages (w_pages w r)"
  "pg_version (w_pages (write_pointer a p w) r) = pg_version (w_pages w r)"
  "pg_foster_child (w_pages (write_pointer a p w) r) = pg_foster_child (w_pages w r)"
  by (cases a; simp add: write_pointer_def update_slot_def)+

lemma read_pointer_write_pointer [simp]:
  "read_pointer (write_pointer a p w) a = p"
  by (cases a) (simp_all add: read_pointer_def write_pointer_def get_next_layer_def update_slot_def)

text \<open>The root pointers depend on the first root pointer and on the slots of the pages only.\<close>
lemma read_pointer_cong:
  "w_first_root_pointer w' = w_first_root_pointer w \<Longrightarrow>
   (\<And>r. pg_slots (w_pages w' r) = pg_slots (w_pages w r)) \<Longrightarrow>
   read_pointer w' a = read_pointer w a"
  by (cases a) (simp_all add: read_pointer_def get_next_layer_def)

lemma read_pointer_frames [simp]:
  "read_pointer (update_version r f w) a = read_pointer w a"
  "read_pointer (unlock_page r w) a = read_pointer w a"
  "read_pointer (clear_foster r w) a = read_pointer w a"
  "read_pointer (overwrite_to_pointer_set b p w) a = read_pointer w a"
  "read_pointer (update_page r (update_minipage i g) w) a = read_pointer w a"
  "read_pointer (update_page r (initialize_volatile_page bd s pid l rt lo hi su ff fch lk) w) a
     = read_pointer w a"
  "read_pointer (w\<lparr>w_free_pages := fp\<rparr>) a = read_pointer w a"
  by (rule read_pointer_cong; simp add: update_minipage_def initialize_volatile_page_def)+



lemma get_foster_child_frames [simp]:
  "r' \<noteq> r \<Longrightarrow> get_foster_child (update_page r f w) r' = get_foster_child w r'"
  "r' \<noteq> r \<Longrightarrow> get_foster_child (update_version r g w) r' = get_foster_child w r'"
  "get_foster_child (w\<lparr>w_free_pages := fp\<rparr>) r' = get_foster_child w r'"
  by (simp_all add: get_foster_child_def)

lemma get_foster_fence_frames [simp]:
  "r' \<noteq> r \<Longrightarrow> get_foster_fence (update_page r f w) r' = get_foster_fence w r'"
  "r' \<noteq> r \<Longrightarrow> get_foster_fence (update_version r g w) r' = get_foster_fence w r'"
  "get_foster_fence (w\<lparr>w_free_pages := fp\<rparr>) r' = get_foster_fence w r'"
  by (simp_all add: get_foster_fence_def)



lemma grow_root_effects:
  assumes lock: "lock_page env root w = Some w1"
      and foster: "has_foster_child (get_version w1 root)" "get_foster_child w1 root = Some fc"
      and grab: "w_free_pages w1 = offset # rest" "offset \<noteq> 0"
      and fresh: "resolve_local w1 offset \<noteq> root" "resolve_local w1 offset \<noteq> fc"
      and res: "grow_root env root_pointer root w = Some (c, w')"
  shows "c = kErrorCodeOk"
    and "w_free_pages w' = rest"
    and "\<not> is_border w' (resolve_local w1 offset)"
    and "get_key_count (mini_version (pg_minipages (w_pages w' (resolve_local w1 offset)) 0)) = 1"
    and "pointers (pg_minipages (w_pages w' (resolve_local w1 offset)) 0) 0
          = \<lparr>snapshot_pointer = 0,
             volatile_pointer = (volatile_pointer (read_pointer w1 root_pointer))\<lparr>vp_flags := 0\<rparr>\<rparr>"
    and "pointers (pg_minipages (w_pages w' (resolve_local w1 offset)) 0) 1
          = \<lparr>snapshot_pointer = 0,
             volatile_pointer = (pg_page_id (w_pages w1 fc))\<lparr>vp_flags := 0\<rparr>\<rparr>"
    and "separators (pg_minipages (w_pages w' (resolve_local w1 offset)) 0) 0 = get_foster_fence w1 root"
    and "get_foster_child w' root = None"
    and "\<not> has_foster_child (get_version w' root)"
    and "read_pointer w' root_pointer =
          \<lparr>snapshot_pointer = 0,
           volatile_pointer = combine_volatile_page_pointer (w_numa_node w1)
              kVolatilePointerFlagSwappable
              (vp_mod_count (volatile_pointer (read_pointer w1 root_pointer)) + 1) offset\<rparr>"
    and "\<forall>e \<in> set (pointer_set (w_xct w')). fst e = root_pointer \<longrightarrow>
           snd e = combine_volatile_page_pointer (w_numa_node w1)
              kVolatilePointerFlagSwappable
              (vp_mod_count (volatile_pointer (read_pointer w1 root_pointer)) + 1) offset"
proof -
  have g: "grab_free_volatile_page w1 = (offset, w1\<lparr>w_free_pages := rest\<rparr>)"
    using grab(1) by (simp add: grab_free_volatile_page_def)
  have d: "(w_numa_node w1, offset) \<noteq> root" "root \<noteq> (w_numa_node w1, offset)"
          "(w_numa_node w1, offset) \<noteq> fc" "fc \<noteq> (w_numa_node w1, offset)"
    using fresh by (auto simp: resolve_local_def)
  note unf = grow_root_def g Let_def resolve_local_def
  show "c = kErrorCodeOk"
    using lock foster grab(2) d res by (simp add: unf del: fun_upd_apply)
  show "w_free_pages w' = rest"
    using lock foster grab(2) d res by (auto simp add: unf simp del: fun_upd_apply)
  show "\<not> is_border w' (resolve_local w1 offset)"
    using lock foster grab(2) d res
    by (auto simp add: unf is_border_def update_minipage_def initialize_volatile_page_def
          set_key_count_def unlock_version_def)
  show "get_key_count (mini_version (pg_minipages (w_pages w' (resolve_local w1 offset)) 0)) = 1"
    using lock foster grab(2) d res
    by (auto simp add: unf update_minipage_def get_key_count_def set_key_count_def
          unlock_version_def lock_version_def)
  show "pointers (pg_minipages (w_pages w' (resolve_local w1 offset)) 0) 0
          = \<lparr>snapshot_pointer = 0,
             volatile_pointer = (volatile_pointer (read_pointer w1 root_pointer))\<lparr>vp_flags := 0\<rparr>\<rparr>"
    using lock foster grab(2) d res
    by (auto simp add: unf update_minipage_def)
  show "pointers (pg_minipages (w_pages w' (resolve_local w1 offset)) 0) 1
          = \<lparr>snapshot_pointer = 0,
             volatile_pointer = (pg_page_id (w_pages w1 fc))\<lparr>vp_flags := 0\<rparr>\<rparr>"
    using lock foster grab(2) d res
    by (auto simp add: unf update_minipage_def)
  show "separators (pg_minipages (w_pages w' (resolve_local w1 offset)) 0) 0 = get_foster_fence w1 root"
    using lock foster grab(2) d res
    by (auto simp add: unf update_minipage_def)
  show "get_foster_child w' root = None"
    using lock foster grab(2) d res
    by (auto simp add: unf get_foster_child_def simp del: get_foster_child_frames)
  show "\<not> has_foster_child (get_version w' root)"
    using lock foster grab(2) d res
    by (auto simp add: unf get_foster_child_def get_version_def has_foster_child_def
          unlock_version_def simp del: get_foster_child_frames)
  show "read_pointer w' root_pointer =
          \<lparr>snapshot_pointer = 0,
           volatile_pointer = combine_volatile_page_pointer (w_numa_node w1)
              kVolatilePointerFlagSwappable
              (vp_mod_count (volatile_pointer (read_pointer w1 root_pointer)) + 1) offset\<rparr>"
    using lock foster grab(2) d res
    by (auto simp add: unf simp del: fun_upd_apply)
  show "\<forall>e \<in> set (pointer_set (w_xct w')). fst e = root_pointer \<longrightarrow>
           snd e = combine_volatile_page_pointer (w_numa_node w1)
              kVolatilePointerFlagSwappable
              (vp_mod_count (volatile_pointer (read_pointer w1 root_pointer)) + 1) offset"
    using lock foster grab(2) d res
    by (auto simp add: unf simp del: fun_upd_apply)
qed

lemma grow_root_returns:
  assumes "lock_page env root w = Some w1"
      and "has_foster_child (get_version w1 root)" "get_foster_child w1 root = Some fc"
      and "w_free_pages w1 = offset # rest" "offset \<noteq> 0"
      and "resolve_local w1 offset \<noteq> root"
  shows "\<exists>c w'. grow_root env root_pointer root w = Some (c, w')"
proof -
  have g: "grab_free_volatile_page w1 = (offset, w1\<lparr>w_free_pages := rest\<rparr>)"
    using assms(4) by (simp add: grab_free_volatile_page_def)
  have d: "(w_numa_node w1, offset) \<noteq> root" "root \<noteq> (w_numa_node w1, offset)"
    using assms(6) by (auto simp: resolve_local_def)
  show ?thesis
    using assms(1,2,3,5) d by (simp add: grow_root_def g Let_def resolve_local_def)
qed

text \<open>
  Claim C2.  When \<^verbatim>\<open>grow_root\<close> finds the locked root still with a foster child and gets a
  page from the pool, it succeeds and takes exactly that one page, which becomes an
  intermediate page whose minipage 0 has key count 1, whose pointer 0 refers to the old root,
  whose pointer 1 refers to the former foster child and whose separator 0 is the old root's
  foster fence.  The old root's foster link is cleared, the root pointer is replaced by a
  swappable pointer to the new page with the modification count raised by one, and every
  pointer-set entry of the transaction for that root pointer holds the new value.  The page
  from the pool is neither the root nor its foster child, and, as the source asserts, the old
  root pointer resolves to the root and the foster child's page id to the foster child.
\<close>
theorem grow_root_installs_new_root:
  assumes lock: "lock_page env root w = Some w1"
      and foster: "has_foster_child (get_version w1 root)" "get_foster_child w1 root = Some fc"
      and grab: "w_free_pages w1 = offset # rest" "offset \<noteq> 0"
      and fresh: "resolve_local w1 offset \<noteq> root" "resolve_local w1 offset \<noteq> fc"
      and wf: "resolve_offset (volatile_pointer (read_pointer w1 root_pointer)) = root"
              "resolve_offset (pg_page_id (w_pages w1 fc)) = fc"
  shows "\<exists>w'. grow_root env root_pointer root w = Some (kErrorCodeOk, w')
     \<and> w_free_pages w' = rest
     \<and> \<not> is_border w' (resolve_local w1 offset)
     \<and> get_key_count (mini_version (pg_minipages (w_pages w' (resolve_local w1 offset)) 0)) = 1
     \<and> resolve_offset (volatile_pointer
           (pointers (pg_minipages (w_pages w' (resolve_local w1 offset)) 0) 0)) = root
     \<and> resolve_offset (volatile_pointer
           (pointers (pg_minipages (w_pages w' (resolve_local w1 offset)) 0) 1)) = fc
     \<and> separators (pg_minipages (w_pages w' (resolve_local w1 offset)) 0) 0 = get_foster_fence w1 root
     \<and> get_foster_child w' root = None
     \<and> \<not> has_foster_child (get_version w' root)
     \<and> snapshot_pointer (read_pointer w' root_pointer) = 0
     \<and> resolve_offset (volatile_pointer (read_pointer w' root_pointer)) = resolve_local w1 offset
     \<and> vp_flags (volatile_pointer (read_pointer w' root_pointer)) = kVolatilePointerFlagSwappable
     \<and> vp_mod_count (volatile_pointer (read_pointer w' root_pointer))
          = vp_mod_count (volatile_pointer (read_pointer w1 root_pointer)) + 1
     \<and> (\<forall>e \<in> set (pointer_set (w_xct w')). fst e = root_pointer \<longrightarrow>
           snd e = volatile_pointer (read_pointer w' root_pointer))"
proof -
  from grow_root_returns [OF lock foster grab fresh(1)] obtain c w' where
    res: "grow_root env root_pointer root w = Some (c, w')" by blast
  note e = grow_root_effects [OF lock foster grab fresh res]
  have p0: "resolve_offset (volatile_pointer
           (pointers (pg_minipages (w_pages w' (resolve_local w1 offset)) 0) 0)) = root"
    using wf(1) e(5) by (simp add: resolve_offset_def)
  have p1: "resolve_offset (volatile_pointer
           (pointers (pg_minipages (w_pages w' (resolve_local w1 offset)) 0) 1)) = fc"
    using wf(2) e(6) by (simp add: resolve_offset_def)
  have rp: "snapshot_pointer (read_pointer w' root_pointer) = 0"
    "resolve_offset (volatile_pointer (read_pointer w' root_pointer)) = resolve_local w1 offset"
    "vp_flags (volatile_pointer (read_pointer w' root_pointer)) = kVolatilePointerFlagSwappable"
    "vp_mod_count (volatile_pointer (read_pointer w' root_pointer))
          = vp_mod_count (volatile_pointer (read_pointer w1 root_pointer)) + 1"
    by (simp_all add: e(10) resolve_offset_def resolve_local_def combine_volatile_page_pointer_def)
  have ps: "\<forall>e \<in> set (pointer_set (w_xct w')). fst e = root_pointer \<longrightarrow>
           snd e = volatile_pointer (read_pointer w' root_pointer)"
    using e(11) by (simp add: e(10))
  show ?thesis
    using res e(1,2,3,4,7,8,9) p0 p1 rp ps by simp
qed

text \<open>The theorem on the first-layer root of the example whose root has split.\<close>
theorem grow_root_installs_new_root_witness:
  "\<exists>w'. grow_root no_interference FirstRootPointer (0, 1) root_with_foster = Some (kErrorCodeOk, w')
     \<and> w_free_pages w' = [4]
     \<and> get_key_count (mini_version (pg_minipages (w_pages w' (0, 3)) 0)) = 1
     \<and> resolve_offset (volatile_pointer (pointers (pg_minipages (w_pages w' (0, 3)) 0) 0)) = (0, 1)
     \<and> resolve_offset (volatile_pointer (pointers (pg_minipages (w_pages w' (0, 3)) 0) 1)) = (0, 2)
     \<and> separators (pg_minipages (w_pages w' (0, 3)) 0) 0 = 100
     \<and> get_foster_child w' (0, 1) = None
     \<and> resolve_offset (volatile_pointer (w_first_root_pointer w')) = (0, 3)
     \<and> (\<forall>e \<in> set (pointer_set (w_xct w')). fst e = FirstRootPointer \<longrightarrow>
           snd e = volatile_pointer (w_first_root_pointer w'))"
proof -
  let ?w0 = "observe no_interference root_with_foster"
  let ?w1 = "update_version (0, 1) lock_version ?w0"
  note defs = root_with_foster_def example_defs get_version_def is_locked_def
  have "\<not> is_locked (get_version ?w0 (0, 1))"
    by (simp add: defs)
  then have l: "lock_page no_interference (0, 1) root_with_foster = Some ?w1"
    by (rule lock_page_free)
  have f: "has_foster_child (get_version ?w1 (0, 1))" "get_foster_child ?w1 (0, 1) = Some (0, 2)"
    by (simp_all add: defs has_foster_child_def get_foster_child_def)
  have g: "w_free_pages ?w1 = 3 # [4]" "(3 :: uint32) \<noteq> 0"
    by (simp_all add: defs)
  have r: "resolve_local ?w1 3 = (0, 3)"
    by (simp add: defs)
  have d: "resolve_local ?w1 3 \<noteq> (0, 1)" "resolve_local ?w1 3 \<noteq> (0, 2)"
    by (simp_all add: r)
  have wf: "resolve_offset (volatile_pointer (read_pointer ?w1 FirstRootPointer)) = (0, 1)"
    "resolve_offset (pg_page_id (w_pages ?w1 (0, 2))) = (0, 2)"
    by (simp_all add: defs read_pointer_def resolve_offset_def)
  have ff: "get_foster_fence ?w1 (0, 1) = 100"
    by (simp add: defs get_foster_fence_def)
  from grow_root_installs_new_root [OF l f g d wf]
  show ?thesis
    unfolding r ff by (auto simp: read_pointer_def)
qed

section \<open>Basic properties of the optimistic read\<close>


lemma same_thread_state_refl [simp]: "same_thread_state w w"
  by (simp add: same_thread_state_def)






lemma retrieve_handler_codes:
  "retrieve_handler border index obs w h = (c, h') \<Longrightarrow>
   c = kErrorCodeOk \<or> c = kErrorCodeStrMasstreeRetry \<or> c = kErrorCodeStrKeyNotFound
     \<or> c = kErrorCodeStrTooSmallPayloadBuffer"
  by (auto simp: retrieve_handler_def Let_def split: prod.splits if_splits)

lemma increment_handler_cases:
  assumes "increment_handler border index off obs w (tmp :: 'a::len word) = (c, tmp')"
  shows "(c = kErrorCodeStrMasstreeRetry \<or> c = kErrorCodeStrKeyNotFound
            \<or> c = kErrorCodeStrTooShortPayload) \<and> tmp' = tmp
         \<or> c = kErrorCodeOk \<and> \<not> does_point_to_layer w border index \<and> \<not> is_deleted obs
            \<and> off + LENGTH('a) div 8 \<le> unat (get_payload_length w border index)
            \<and> tmp' = read_primitive (slot_record (pg_slots (w_pages w border) index))
                       (get_suffix_length w border index + off)"
  using assms by (auto simp: increment_handler_def Let_def split: if_splits)

lemma add_to_write_set_cases:
  assumes "add_to_write_set storage a e w2 = (code, w')"
  shows "(code = kErrorCodeOk \<or> code = kErrorCodeOther 3)"
    and "w_log_buffer w' = w_log_buffer w2" and "w_pages w' = w_pages w2"
    and "code = kErrorCodeOk \<Longrightarrow> write_set (w_xct w') = write_set (w_xct w2) @ [(storage, a, e)]"
  using assms by (auto simp: add_to_write_set_def split: if_splits)

section \<open>Properties of the array increment\<close>



lemma bit_word_of_bytes:
  "bit (word_of_bytes bs :: 'a::len word) k \<longleftrightarrow>
     k < LENGTH('a) \<and> k div 8 < length bs \<and> bit (bs ! (k div 8)) (k mod 8)"
proof (induction bs arbitrary: k)
  case Nil
  then show ?case by (simp add: word_of_bytes_def)
next
  case (Cons b bs)
  have unf: "(word_of_bytes (b # bs) :: 'a word) = ucast b OR push_bit 8 (word_of_bytes bs)"
    by (simp add: word_of_bytes_def)
  show ?case
  proof (cases "k < 8")
    case True
    then show ?thesis
      by (auto simp: unf bit_simps dest: bit_imp_le_length)
  next
    case False
    then have k8: "8 \<le> k" by simp
    then obtain j where j: "k = j + 8" by (metis le_add_diff_inverse2)
    have d: "(k - 8) div 8 = k div 8 - 1" "(k - 8) mod 8 = k mod 8" "0 < k div 8"
      by (simp_all add: j)
    have nb: "\<not> bit b k" using k8 by (auto dest: bit_imp_le_length)
    show ?thesis
      using k8 d nb Cons.IH [of "k - 8"]
      by (cases "k div 8") (auto simp: unf bit_simps)
  qed
qed

lemma bytes_of_word_of_bytes:
  assumes "length bs = LENGTH('a) div 8"
  shows "bytes_of (word_of_bytes bs :: 'a::len word) = bs"
proof (rule nth_equalityI)
  show "length (bytes_of (word_of_bytes bs :: 'a word)) = length bs"
    using assms by (simp add: bytes_of_def)
next
  fix i
  assume "i < length (bytes_of (word_of_bytes bs :: 'a word))"
  then have i: "i < LENGTH('a) div 8" by (simp add: bytes_of_def)
  then have le: "8 * i + 8 \<le> LENGTH('a)" by simp
  have "(ucast (drop_bit (8 * i) (word_of_bytes bs :: 'a word)) :: uint8) = bs ! i"
  proof (rule bit_word_eqI)
    fix m
    assume "m < LENGTH(8)"
    then have m: "m < 8" by simp
    then have "(8 * i + m) div 8 = i" "(8 * i + m) mod 8 = m" "8 * i + m < LENGTH('a)"
      using le by simp_all
    then show "bit (ucast (drop_bit (8 * i) (word_of_bytes bs :: 'a word)) :: uint8) m
                 \<longleftrightarrow> bit (bs ! i) m"
      using m i assms by (simp add: bit_simps bit_word_of_bytes)
  qed
  then show "bytes_of (word_of_bytes bs :: 'a word) ! i = bs ! i"
    using i by (simp add: bytes_of_def)
qed

text \<open>Writing back the bytes of a value just read from a record does not change the record.\<close>
lemma apply_overwrite_read_primitive:
  "apply_overwrite (bytes_of (read_primitive mem off :: 'a::len word)) off mem = mem"
proof -
  let ?bs = "map (\<lambda>i. mem (off + i)) [0 ..< LENGTH('a) div 8]"
  have "bytes_of (word_of_bytes ?bs :: 'a word) = ?bs"
    by (rule bytes_of_word_of_bytes) simp
  then show ?thesis
    by (auto simp: apply_overwrite_def read_primitive_def fun_eq_iff)
qed


lemma array_spin_while_keylocked_frame:
  assumes res: "array_spin_while_keylocked env a w = Some r"
  shows "aw_metadata (snd r) = aw_metadata w \<and> aw_xct (snd r) = aw_xct w
       \<and> aw_log_buffer (snd r) = aw_log_buffer w"
  by (rule array_spin_while_keylocked.raw_induct
        [OF _ res, where P = "\<lambda>env a w r. aw_metadata (snd r) = aw_metadata w
            \<and> aw_xct (snd r) = aw_xct w \<and> aw_log_buffer (snd r) = aw_log_buffer w"])
     (auto simp: Let_def array_observe_def split: if_splits)

lemma array_lookup_loop_error:
  "array_lookup_loop w offset n p = Inl e \<Longrightarrow> e = kErrorCodeNotimplemented"
  by (induction n arbitrary: p) (auto simp: Let_def split: if_splits)

lemma array_locate_record_error:
  "array_locate_record w offset = Inl e \<Longrightarrow> e = kErrorCodeNotimplemented"
  by (auto simp: array_locate_record_def array_lookup_def split: sum.splits
           dest: array_lookup_loop_error)

lemma read_record_primitive_value:
  "read_record_primitive env storage a off w = Some (code, ov, w1) \<Longrightarrow>
   (ov = None) = (code \<noteq> kErrorCodeOk)"
  by (auto simp: read_record_primitive_def split: option.splits prod.splits if_splits)

section \<open>Properties of the lookup\<close>




lemma find_border_leaf_codes:
  assumes res: "find_border_leaf env cur cur_stable kslice w = Some r"
  shows "isl (fst r) \<longrightarrow> projl (fst r) = kErrorCodeStrMasstreeRetry"
  by (rule find_border_leaf.raw_induct
        [OF _ res, where P = "\<lambda>env cur cur_stable kslice w r.
            isl (fst r) \<longrightarrow> projl (fst r) = kErrorCodeStrMasstreeRetry"])
     (auto simp: Let_def split: if_splits option.splits prod.splits)


lemma find_border_leaf_not_found:
  "find_border_leaf env cur cur_stable kslice w = Some (Inl kErrorCodeStrKeyNotFound, w') \<Longrightarrow> False"
  using find_border_leaf_codes [of env cur cur_stable kslice w "(Inl kErrorCodeStrKeyNotFound, w')"]
  by simp






















section \<open>Properties of the descent\<close>

lemma find_border_leaf_foster_step:
  assumes "has_foster_child cur_stable" and "within_foster_child w cur kslice"
      and "get_foster_child w cur = Some next"
      and "get_stable_version env next w = Some (next_stable, w1)"
  shows "find_border_leaf env cur cur_stable kslice w =
     (if data (get_version (observe env w1) cur) XOR data cur_stable \<le> kPageVersionLockedBit
      then find_border_leaf env next next_stable kslice (observe env w1)
      else (case get_stable_version env cur (observe env w1) of
              None \<Rightarrow> None
            | Some (cur_new_stable, w3) \<Rightarrow>
                if get_split_counter cur_new_stable \<noteq> get_split_counter cur_stable
                then Some (Inl kErrorCodeStrMasstreeRetry, w3)
                else find_border_leaf env cur cur_new_stable kslice w3))"
  by (subst find_border_leaf.simps) (simp add: assms Let_def)

lemma find_border_descend_foster_step:
  assumes "has_foster_child cur_stable" and "within_foster_child w cur kslice"
      and "get_foster_child w cur = Some next"
      and "get_stable_version (dc_env ctx) next w = Some (next_stable, w1)"
  shows "find_border_descend ctx for_writes cur cur_stable kslice w =
     (if data (get_version (observe (dc_env ctx) w1) cur) XOR data cur_stable
           \<le> kPageVersionLockedBit
      then find_border_descend ctx for_writes next next_stable kslice (observe (dc_env ctx) w1)
      else (case get_stable_version (dc_env ctx) cur (observe (dc_env ctx) w1) of
              None \<Rightarrow> None
            | Some (cur_new_stable, w3) \<Rightarrow>
                if get_split_counter cur_new_stable \<noteq> get_split_counter cur_stable
                then Some (Inl kErrorCodeStrMasstreeRetry, w3)
                else find_border_descend ctx for_writes cur cur_new_stable kslice w3))"
  by (subst find_border_descend.simps) (simp add: assms Let_def)

lemma find_border_descend_child_step:
  assumes "\<not> (has_foster_child cur_stable \<and> within_foster_child w cur kslice)"
      and "find_minipage w cur (get_key_count cur_stable) kslice = i"
      and "get_mini_stable_version (dc_env ctx) cur i w = Some (mini_stable, w1)"
      and "find_pointer w1 cur i (get_key_count mini_stable) kslice = j"
      and "follow_page for_writes False (MiniPagePointer cur i j) w1 = (Inr next, w2)"
      and "\<not> has_foster_child (get_version w2 next)"
      and "get_stable_version (dc_env ctx) next w2 = Some (next_stable, w3)"
  shows "find_border_descend ctx for_writes cur cur_stable kslice w =
     (if data (get_version (observe (dc_env ctx) w3) cur) XOR data cur_stable
           \<le> kPageVersionLockedBit
         \<and> data (mini_version (pg_minipages (w_pages (observe (dc_env ctx) w3) cur) i))
               XOR data mini_stable
           \<le> kPageVersionLockedBit
      then (if is_border w2 next
            then find_border_leaf (dc_env ctx) next next_stable kslice (observe (dc_env ctx) w3)
            else find_border_descend ctx for_writes next next_stable kslice
                   (observe (dc_env ctx) w3))
      else (case get_stable_version (dc_env ctx) cur (observe (dc_env ctx) w3) of
              None \<Rightarrow> None
            | Some (cur_new_stable, w5) \<Rightarrow>
                if get_split_counter cur_new_stable \<noteq> get_split_counter cur_stable
                then Some (Inl kErrorCodeStrMasstreeRetry, w5)
                else find_border_descend ctx for_writes cur cur_new_stable kslice w5))"
proof -
  have c: "(has_foster_child cur_stable \<and> within_foster_child w cur kslice) = False"
    using assms(1) by simp
  show ?thesis
    by (subst find_border_descend.simps) (simp add: c assms(2-) Let_def)
qed

lemma find_border_loop_restart:
  assumes "get_stable_version (dc_env ctx) layer_root w = Some (stable_v, w1)"
      and "(if layer_root_is_border
            then find_border_leaf (dc_env ctx) layer_root stable_v kslice w1
            else find_border_descend ctx for_writes layer_root stable_v kslice w1)
           = Some (Inl kErrorCodeStrMasstreeRetry, w2)"
  shows "find_border_loop ctx for_writes layer_root layer_root_is_border kslice w
           = find_border_loop ctx for_writes layer_root layer_root_is_border kslice w2"
  by (subst find_border_loop.simps) (simp add: assms)

lemma find_border_loop_never_retry:
  assumes res: "find_border_loop ctx for_writes layer_root b kslice w = Some r"
  shows "fst r \<noteq> Inl kErrorCodeStrMasstreeRetry"
  by (rule find_border_loop.raw_induct
        [OF _ res, where P = "\<lambda>ctx for_writes layer_root b kslice w r.
                                 fst r \<noteq> Inl kErrorCodeStrMasstreeRetry"])
     (auto split: option.splits if_splits prod.splits)

lemma follow_page_minipage_state:
  "snd (follow_page for_writes False (MiniPagePointer r i j) w) = w"
  by (simp add: follow_page_def Let_def)

lemma get_stable_version_unlocked:
  "\<not> is_locked (get_version (observe env w) r) \<Longrightarrow>
   get_stable_version env r w = Some (get_version (observe env w) r, observe env w)"
  by (subst get_stable_version.simps) (simp add: Let_def)

lemma get_mini_stable_version_unlocked:
  "\<not> is_locked (mini_version (pg_minipages (w_pages (observe env w) r) i)) \<Longrightarrow>
   get_mini_stable_version env r i w
     = Some (mini_version (pg_minipages (w_pages (observe env w) r) i), observe env w)"
  by (subst get_mini_stable_version.simps) (simp add: Let_def)

text \<open>
  The claim as it is written fails on the first step of the descent for slice 5 in the tree
  with two children, when other threads split page 2 and adopt the new page 5 before the
  check.  The step chooses minipage 0 and its pointer 0, which leads to page 2, and reads
  the stable version of page 2.  At the check the version of the root differs from the
  captured one in no bit, so that the XOR is at most the lock bit; the descent that
  proceeds into page 2 would end in page 2, yet \<^verbatim>\<open>find_border_descend\<close> ends in page 5.
\<close>
theorem parent_check_alone_does_not_proceed:
  "find_minipage minipage_change_start (0, 1)
      (get_key_count (get_version minipage_change_start (0, 1))) 5 = 0
   \<and> fst (follow_page False False (MiniPagePointer (0, 1) 0 0)
             (observe (dc_env concurrent_minipage_change) minipage_change_start))
       = Inr (0, 2)
   \<and> get_stable_version (dc_env concurrent_minipage_change) (0, 2)
        (observe (dc_env concurrent_minipage_change) minipage_change_start)
       = Some (get_version minipage_change_child_read (0, 2), minipage_change_child_read)
   \<and> data (get_version minipage_change_check (0, 1))
         XOR data (get_version minipage_change_start (0, 1))
       \<le> kPageVersionLockedBit
   \<and> map_option (map_sum id fst \<circ> fst)
        (find_border_leaf (dc_env concurrent_minipage_change) (0, 2)
           (get_version minipage_change_child_read (0, 2)) 5 minipage_change_check)
       = Some (Inr (0, 2))
   \<and> map_option (map_sum id fst \<circ> fst)
        (find_border_descend concurrent_minipage_change False (0, 1)
           (get_version minipage_change_start (0, 1)) 5 minipage_change_start)
       = Some (Inr (0, 5))
   \<and> find_border_descend concurrent_minipage_change False (0, 1)
        (get_version minipage_change_start (0, 1)) 5 minipage_change_start
       \<noteq> find_border_leaf (dc_env concurrent_minipage_change) (0, 2)
           (get_version minipage_change_child_read (0, 2)) 5 minipage_change_check"
proof -
  have a: "find_minipage minipage_change_start (0, 1)
      (get_key_count (get_version minipage_change_start (0, 1))) 5 = 0"
    by code_simp
  have b: "fst (follow_page False False (MiniPagePointer (0, 1) 0 0)
             (observe (dc_env concurrent_minipage_change) minipage_change_start))
       = Inr (0, 2)"
    by code_simp
  have "\<not> is_locked (get_version minipage_change_child_read (0, 2))"
    by code_simp
  then have c: "get_stable_version (dc_env concurrent_minipage_change) (0, 2)
        (observe (dc_env concurrent_minipage_change) minipage_change_start)
       = Some (get_version minipage_change_child_read (0, 2), minipage_change_child_read)"
    unfolding minipage_change_child_read_def by (rule get_stable_version_unlocked)
  have d: "data (get_version minipage_change_check (0, 1))
         XOR data (get_version minipage_change_start (0, 1))
       \<le> kPageVersionLockedBit"
    by code_simp
  have e: "map_option (map_sum id fst \<circ> fst)
        (find_border_leaf (dc_env concurrent_minipage_change) (0, 2)
           (get_version minipage_change_child_read (0, 2)) 5 minipage_change_check)
       = Some (Inr (0, 2))"
    by code_simp
  have f: "map_option (map_sum id fst \<circ> fst)
        (find_border_descend concurrent_minipage_change False (0, 1)
           (get_version minipage_change_start (0, 1)) 5 minipage_change_start)
       = Some (Inr (0, 5))"
    by code_simp
  from e f have g: "find_border_descend concurrent_minipage_change False (0, 1)
        (get_version minipage_change_start (0, 1)) 5 minipage_change_start
       \<noteq> find_border_leaf (dc_env concurrent_minipage_change) (0, 2)
           (get_version minipage_change_child_read (0, 2)) 5 minipage_change_check"
    by auto
  from a b c d e f g show ?thesis by blast
qed

text \<open>
  Claim C1, amended.  In every step of the descent to a foster child, in \<^verbatim>\<open>find_border_leaf\<close>
  and in \<^verbatim>\<open>find_border_descend\<close>, the stable version of the foster child is captured and the
  version of the page is read again; the descent proceeds to the foster child if the XOR of
  that version with the captured stable version of the page is at most the lock bit.  In
  every step of \<^verbatim>\<open>find_border_descend\<close> to a child without a foster child, the stable version
  of the child is captured and the versions of the page and of the chosen minipage are read
  again; the descent proceeds to the child if both the XOR of the page version with its
  captured stable version and the XOR of the minipage version with its captured stable
  version are at most the lock bit.  Otherwise the stable version of the page is read anew;
  if its split counter differs from the captured one the step returns
  \<^verbatim>\<open>kErrorCodeStrMasstreeRetry\<close>, on which the loop of \<^verbatim>\<open>find_border\<close> starts again from the layer
  root, and which \<^verbatim>\<open>find_border\<close> never returns; if the split counter is the same, the step
  alone is tried again with the new stable version.
\<close>
theorem hand_over_hand_verification:
  "(has_foster_child cur_stable \<and> within_foster_child w cur kslice
      \<and> get_foster_child w cur = Some next
      \<and> get_stable_version env next w = Some (next_stable, w1) \<longrightarrow>
    find_border_leaf env cur cur_stable kslice w =
     (if data (get_version (observe env w1) cur) XOR data cur_stable \<le> kPageVersionLockedBit
      then find_border_leaf env next next_stable kslice (observe env w1)
      else (case get_stable_version env cur (observe env w1) of
              None \<Rightarrow> None
            | Some (cur_new_stable, w3) \<Rightarrow>
                if get_split_counter cur_new_stable \<noteq> get_split_counter cur_stable
                then Some (Inl kErrorCodeStrMasstreeRetry, w3)
                else find_border_leaf env cur cur_new_stable kslice w3)))
   \<and> (has_foster_child cur_stable \<and> within_foster_child w cur kslice
      \<and> get_foster_child w cur = Some next
      \<and> get_stable_version (dc_env ctx) next w = Some (next_stable, w1) \<longrightarrow>
    find_border_descend ctx for_writes cur cur_stable kslice w =
     (if data (get_version (observe (dc_env ctx) w1) cur) XOR data cur_stable
           \<le> kPageVersionLockedBit
      then find_border_descend ctx for_writes next next_stable kslice (observe (dc_env ctx) w1)
      else (case get_stable_version (dc_env ctx) cur (observe (dc_env ctx) w1) of
              None \<Rightarrow> None
            | Some (cur_new_stable, w3) \<Rightarrow>
                if get_split_counter cur_new_stable \<noteq> get_split_counter cur_stable
                then Some (Inl kErrorCodeStrMasstreeRetry, w3)
                else find_border_descend ctx for_writes cur cur_new_stable kslice w3)))
   \<and> (\<not> (has_foster_child cur_stable \<and> within_foster_child w cur kslice)
      \<and> find_minipage w cur (get_key_count cur_stable) kslice = i
      \<and> get_mini_stable_version (dc_env ctx) cur i w = Some (mini_stable, w1)
      \<and> find_pointer w1 cur i (get_key_count mini_stable) kslice = j
      \<and> follow_page for_writes False (MiniPagePointer cur i j) w1 = (Inr next, w2)
      \<and> \<not> has_foster_child (get_version w2 next)
      \<and> get_stable_version (dc_env ctx) next w2 = Some (next_stable, w3) \<longrightarrow>
    find_border_descend ctx for_writes cur cur_stable kslice w =
     (if data (get_version (observe (dc_env ctx) w3) cur) XOR data cur_stable
           \<le> kPageVersionLockedBit
         \<and> data (mini_version (pg_minipages (w_pages (observe (dc_env ctx) w3) cur) i))
               XOR data mini_stable
           \<le> kPageVersionLockedBit
      then (if is_border w2 next
            then find_border_leaf (dc_env ctx) next next_stable kslice (observe (dc_env ctx) w3)
            else find_border_descend ctx for_writes next next_stable kslice
                   (observe (dc_env ctx) w3))
      else (case get_stable_version (dc_env ctx) cur (observe (dc_env ctx) w3) of
              None \<Rightarrow> None
            | Some (cur_new_stable, w5) \<Rightarrow>
                if get_split_counter cur_new_stable \<noteq> get_split_counter cur_stable
                then Some (Inl kErrorCodeStrMasstreeRetry, w5)
                else find_border_descend ctx for_writes cur cur_new_stable kslice w5)))
   \<and> (get_stable_version (dc_env ctx) layer_root w = Some (stable_v, w1)
      \<and> (if layer_root_is_border
          then find_border_leaf (dc_env ctx) layer_root stable_v kslice w1
          else find_border_descend ctx for_writes layer_root stable_v kslice w1)
         = Some (Inl kErrorCodeStrMasstreeRetry, w2) \<longrightarrow>
    find_border_loop ctx for_writes layer_root layer_root_is_border kslice w
      = find_border_loop ctx for_writes layer_root layer_root_is_border kslice w2)
   \<and> find_border ctx layer_root for_writes kslice w
        \<noteq> Some (Inl kErrorCodeStrMasstreeRetry, w')"
proof (intro conjI impI; (elim conjE)?)
  show "find_border ctx layer_root for_writes kslice w \<noteq> Some (Inl kErrorCodeStrMasstreeRetry, w')"
    using find_border_loop_never_retry
      [of ctx for_writes layer_root "is_border w layer_root" kslice w
          "(Inl kErrorCodeStrMasstreeRetry, w')"]
    by (auto simp: find_border_def)
qed (rule find_border_leaf_foster_step find_border_descend_foster_step
          find_border_descend_child_step find_border_loop_restart; assumption)+

text \<open>
  The theorem on the same step: the minipage version has changed at the check, the split
  counter of the root has not, and the step is tried again from the state after the new
  read of the root's stable version.
\<close>
theorem hand_over_hand_verification_witness:
  "find_border_descend concurrent_minipage_change False (0, 1)
      (get_version minipage_change_start (0, 1)) 5 minipage_change_start
   = find_border_descend concurrent_minipage_change False (0, 1)
       (get_version (observe (dc_env concurrent_minipage_change) minipage_change_check) (0, 1)) 5
       (observe (dc_env concurrent_minipage_change) minipage_change_check)"
proof -
  let ?ctx = concurrent_minipage_change
  let ?w = minipage_change_start
  let ?w1 = "observe (dc_env ?ctx) ?w"
  let ?w5 = "observe (dc_env ?ctx) minipage_change_check"
  let ?cur_stable = "get_version ?w (0, 1)"
  let ?mini_stable = "mini_version (pg_minipages (w_pages ?w1 (0, 1)) 0)"
  let ?next_stable = "get_version minipage_change_child_read (0, 2)"
  have h1: "\<not> (has_foster_child ?cur_stable \<and> within_foster_child ?w (0, 1) 5)"
    by code_simp
  have h2: "find_minipage ?w (0, 1) (get_key_count ?cur_stable) 5 = 0"
    by code_simp
  have "\<not> is_locked ?mini_stable"
    by code_simp
  then have h3: "get_mini_stable_version (dc_env ?ctx) (0, 1) 0 ?w = Some (?mini_stable, ?w1)"
    by (rule get_mini_stable_version_unlocked)
  have h4: "find_pointer ?w1 (0, 1) 0 (get_key_count ?mini_stable) 5 = 0"
    by code_simp
  have "fst (follow_page False False (MiniPagePointer (0, 1) 0 0) ?w1) = Inr (0, 2)"
    by code_simp
  then have h5: "follow_page False False (MiniPagePointer (0, 1) 0 0) ?w1 = (Inr (0, 2), ?w1)"
    using follow_page_minipage_state [of False "(0, 1)" 0 0 ?w1]
    by (cases "follow_page False False (MiniPagePointer (0, 1) 0 0) ?w1") simp
  have h6: "\<not> has_foster_child (get_version ?w1 (0, 2))"
    by code_simp
  have "\<not> is_locked ?next_stable"
    by code_simp
  then have h7: "get_stable_version (dc_env ?ctx) (0, 2) ?w1
                   = Some (?next_stable, minipage_change_child_read)"
    unfolding minipage_change_child_read_def by (rule get_stable_version_unlocked)
  have changed: "\<not> data (mini_version (pg_minipages (w_pages minipage_change_check (0, 1)) 0))
                      XOR data ?mini_stable
                    \<le> kPageVersionLockedBit"
    by code_simp
  have "\<not> is_locked (get_version ?w5 (0, 1))"
    by code_simp
  then have again: "get_stable_version (dc_env ?ctx) (0, 1) minipage_change_check
                      = Some (get_version ?w5 (0, 1), ?w5)"
    by (rule get_stable_version_unlocked)
  have same: "get_split_counter (get_version ?w5 (0, 1)) = get_split_counter ?cur_stable"
    by code_simp
  from hand_over_hand_verification
         [THEN conjunct2, THEN conjunct2, THEN conjunct1, rule_format,
          of ?cur_stable ?w "(0, 1)" 5 0 ?ctx ?mini_stable ?w1 0 False "(0, 2)" ?w1
             ?next_stable minipage_change_child_read]
       h1 h2 h3 h4 h5 h6 h7
  have "find_border_descend ?ctx False (0, 1) ?cur_stable 5 ?w =
     (if data (get_version (observe (dc_env ?ctx) minipage_change_child_read) (0, 1))
            XOR data ?cur_stable \<le> kPageVersionLockedBit
         \<and> data (mini_version (pg_minipages
                    (w_pages (observe (dc_env ?ctx) minipage_change_child_read) (0, 1)) 0))
               XOR data ?mini_stable
           \<le> kPageVersionLockedBit
      then (if is_border ?w1 (0, 2)
            then find_border_leaf (dc_env ?ctx) (0, 2) ?next_stable 5
                   (observe (dc_env ?ctx) minipage_change_child_read)
            else find_border_descend ?ctx False (0, 2) ?next_stable 5
                   (observe (dc_env ?ctx) minipage_change_child_read))
      else (case get_stable_version (dc_env ?ctx) (0, 1)
                   (observe (dc_env ?ctx) minipage_change_child_read) of
              None \<Rightarrow> None
            | Some (cur_new_stable, w5) \<Rightarrow>
                if get_split_counter cur_new_stable \<noteq> get_split_counter ?cur_stable
                then Some (Inl kErrorCodeStrMasstreeRetry, w5)
                else find_border_descend ?ctx False (0, 1) cur_new_stable 5 w5))"
    by blast
  then show ?thesis
    unfolding minipage_change_check_def [symmetric]
    by (simp only: changed again same simp_thms if_False option.case prod.case)
qed

end
